theory Spec2Isabelle
  imports Complex_Main "HOL-Library.Sublist" "HOL-Library.AList"
begin

section \<open>Strings\<close>

text \<open>
  A JavaScript string is modelled as a \<open>string\<close> whose characters are code units below 256.
  \<open>String.prototype.trim\<close> removes the white space and line terminators of that range from
  both ends; \<open>toLowerCase\<close> maps A-Z and the upper-case letters of Latin-1 to lower case.
\<close>

definition isWhiteSpace :: "char \<Rightarrow> bool" where
  "isWhiteSpace c =
     (c \<in> {CHR 0x09, CHR 0x0A, CHR 0x0B, CHR 0x0C, CHR 0x0D, CHR '' '', CHR 0xA0})"

definition trim :: "string \<Rightarrow> string" where
  "trim s = rev (dropWhile isWhiteSpace (rev (dropWhile isWhiteSpace s)))"

definition lowerChar :: "char \<Rightarrow> char" where
  "lowerChar c =
     (let n = (of_char c :: nat)
      in if (65 \<le> n \<and> n \<le> 90) \<or> (192 \<le> n \<and> n \<le> 214) \<or> (216 \<le> n \<and> n \<le> 222)
         then char_of (n + 32) else c)"

definition toLowerCase :: "string \<Rightarrow> string" where
  "toLowerCase s = map lowerChar s"

text \<open>\<open>s.endsWith(t)\<close>: the last \<open>length t\<close> code units of \<open>s\<close> are \<open>t\<close>.\<close>

definition endsWith :: "string \<Rightarrow> string \<Rightarrow> bool" where
  "endsWith s t = (length t \<le> length s \<and> drop (length s - length t) s = t)"

text \<open>\<open>s.includes(c)\<close> for a one-character needle.\<close>

definition includes_char :: "string \<Rightarrow> char \<Rightarrow> bool" where
  "includes_char s c = (c \<in> set s)"

text \<open>
  \<open>s.split(/\r?\n/)\<close>: the pieces between line breaks, a line break being a line feed or a
  carriage return directly followed by a line feed. The accumulator holds the current piece,
  reversed.
\<close>

fun split_lines_acc :: "string \<Rightarrow> string \<Rightarrow> string list" where
  "split_lines_acc acc [] = [rev acc]"
| "split_lines_acc acc (c # cs) =
     (if c = CHR 0x0A then rev acc # split_lines_acc [] cs
      else if c = CHR 0x0D \<and> cs \<noteq> [] \<and> hd cs = CHR 0x0A then rev acc # split_lines_acc [] (tl cs)
      else split_lines_acc (c # acc) cs)"

definition split_lines :: "string \<Rightarrow> string list" where
  "split_lines s = split_lines_acc [] s"

text \<open>Decimal digits of a number, as a template literal prints it.\<close>

fun show_nat :: "nat \<Rightarrow> string" where
  "show_nat n =
     (if n < 10 then [char_of (48 + n)] else show_nat (n div 10) @ [char_of (48 + n mod 10)])"

definition show_int :: "int \<Rightarrow> string" where
  "show_int i = (if i < 0 then CHR ''-'' # show_nat (nat (- i)) else show_nat (nat i))"

section \<open>JSON values\<close>

text \<open>
  The result of \<open>JSON.parse\<close>. Numbers are integers here: the code only asks whether a value
  is a number. A property that is absent reads as \<open>undefined\<close>, modelled as \<open>None\<close>.
\<close>

datatype json =
    JNull
  | JBool bool
  | JNum int
  | JStr string
  | JArr "json list"
  | JObj "(string \<times> json) list"

text \<open>\<open>v[k]\<close> for a key that is neither an index nor a built-in property.\<close>

fun get :: "json \<Rightarrow> string \<Rightarrow> json option" where
  "get (JObj kvs) k = map_of kvs k"
| "get _ k = None"

text \<open>\<open>v?.[k]\<close>: optional chaining over \<open>undefined\<close> and \<open>null\<close>.\<close>

fun get_opt :: "json option \<Rightarrow> string \<Rightarrow> json option" where
  "get_opt None k = None"
| "get_opt (Some v) k = get v k"

text \<open>Truthiness of a value, \<open>None\<close> being \<open>undefined\<close>.\<close>

fun truthy :: "json option \<Rightarrow> bool" where
  "truthy None = False"
| "truthy (Some JNull) = False"
| "truthy (Some (JBool b)) = b"
| "truthy (Some (JNum n)) = (n \<noteq> 0)"
| "truthy (Some (JStr s)) = (s \<noteq> [])"
| "truthy (Some (JArr xs)) = True"
| "truthy (Some (JObj kvs)) = True"

text \<open>\<open>typeof v === "object"\<close>: true of null, arrays and objects.\<close>

fun typeof_object :: "json option \<Rightarrow> bool" where
  "typeof_object (Some JNull) = True"
| "typeof_object (Some (JArr xs)) = True"
| "typeof_object (Some (JObj kvs)) = True"
| "typeof_object _ = False"

fun typeof_number :: "json option \<Rightarrow> bool" where
  "typeof_number (Some (JNum n)) = True"
| "typeof_number _ = False"

fun typeof_string :: "json option \<Rightarrow> bool" where
  "typeof_string (Some (JStr s)) = True"
| "typeof_string _ = False"

text \<open>
  The bytes of a file or of a response body: either the text of the JSON value \<open>j\<close>, which
  \<open>JSON.parse\<close> reads back as \<open>j\<close> and \<open>JSON.stringify\<close> writes for \<open>j\<close>, or bytes that are
  not JSON, on which \<open>JSON.parse\<close> throws.
\<close>

datatype content = Json json | Bytes string

fun JSON_parse :: "content \<Rightarrow> json option" where
  "JSON_parse (Json j) = Some j"
| "JSON_parse (Bytes b) = None"

section \<open>Errors\<close>

datatype ToolName = YtDlp | Ffmpeg

fun tool_name :: "ToolName \<Rightarrow> string" where
  "tool_name YtDlp = ''yt-dlp''"
| "tool_name Ffmpeg = ''ffmpeg''"

text \<open>
  Every exception the code throws or lets through, by the place that throws it:
  \<^item> \<open>TooManyRedirects\<close>: "Too many redirects while downloading tool";
  \<^item> \<open>DownloadFailed status\<close>: "Failed to download tool: status";
  \<^item> \<open>TransportError\<close>: an \<open>error\<close> event of the request or of the response stream;
  \<^item> \<open>SyntaxError\<close>: thrown by \<open>JSON.parse\<close>;
  \<^item> \<open>InvalidManifest\<close>: "Invalid tools manifest";
  \<^item> \<open>InvalidManifestPayload\<close>: "Invalid tools manifest payload";
  \<^item> \<open>ManifestSignatureFailed\<close>: "Tools manifest signature verification failed";
  \<^item> \<open>CryptoError\<close>: thrown by the signature library;
  \<^item> \<open>UnsupportedPlatform tool platform arch\<close>: "Unsupported platform for tool: platform-arch";
  \<^item> \<open>ChecksumMismatch tool\<close>: "Checksum mismatch while installing tool";
  \<^item> \<open>SignatureFailed tool\<close>: "Signature verification failed for tool";
  \<^item> \<open>ExtractionFailed message\<close>: the error of a subprocess that exits with a non-zero code;
  \<^item> \<open>OutputFileMissing\<close>: "Unable to locate downloaded track file";
  \<^item> \<open>ENOENT path\<close>: a file operation on a path that does not exist;
  \<^item> \<open>TypeError\<close>: a property assignment on a primitive value;
  \<^item> \<open>SpawnError\<close>: the \<open>error\<close> event of a subprocess that could not be started.
\<close>

datatype error =
    TooManyRedirects
  | DownloadFailed "nat option"
  | TransportError
  | SyntaxError
  | InvalidManifest
  | InvalidManifestPayload
  | ManifestSignatureFailed
  | CryptoError
  | UnsupportedPlatform ToolName string string
  | ChecksumMismatch ToolName
  | SignatureFailed ToolName
  | ExtractionFailed string
  | OutputFileMissing
  | ENOENT string
  | TypeError
  | SpawnError

section \<open>HTTP\<close>

text \<open>
  What one \<open>https.get\<close> of a URL produces: an \<open>error\<close> event of the request, or a response
  with its status code, its Location header and its body (\<open>None\<close> when the response
  stream emits \<open>error\<close> before \<open>end\<close>).
\<close>

datatype http_result =
    RequestError
  | Response "nat option" "string option" "content option"

text \<open>
  \<open>statusCode && statusCode >= 300 && statusCode < 400 && res.headers.location\<close>
\<close>

fun is_redirect :: "nat option \<Rightarrow> string option \<Rightarrow> bool" where
  "is_redirect (Some statusCode) (Some location) =
     (statusCode \<noteq> 0 \<and> statusCode \<ge> 300 \<and> statusCode < 400 \<and> location \<noteq> [])"
| "is_redirect _ _ = False"

function httpGetBuffer :: "(string \<Rightarrow> http_result) \<Rightarrow> string \<Rightarrow> nat \<Rightarrow> error + content" where
  "httpGetBuffer net url redirectCount =
     (if redirectCount > 5 then Inl TooManyRedirects
      else case net url of
        RequestError \<Rightarrow> Inl TransportError
      | Response statusCode location body \<Rightarrow>
          if is_redirect statusCode location
          then httpGetBuffer net (the location) (redirectCount + 1)
          else if statusCode \<noteq> Some 200 then Inl (DownloadFailed statusCode)
          else (case body of None \<Rightarrow> Inl TransportError | Some b \<Rightarrow> Inr b))"
  by pat_completeness auto
termination
  by (relation "measure (\<lambda>(net, url, redirectCount). 6 - redirectCount)") auto

declare httpGetBuffer.simps [simp del]

section \<open>Releases\<close>

text \<open>
  \<open>ToolRelease\<close>. The two optional fields of a release taken from the remote catalog are
  copied unchecked, so they hold whatever JSON value the catalog has there.
\<close>

record ToolRelease =
  r_version :: string
  r_url :: string
  r_sha256 :: string
  r_binaryName :: string
  r_signature :: "json option"
  r_publicKeyPem :: "json option"

definition builtin_release :: "string \<Rightarrow> string \<Rightarrow> string \<Rightarrow> string \<Rightarrow> ToolRelease" where
  "builtin_release v u h b =
     \<lparr>r_version = v, r_url = u, r_sha256 = h, r_binaryName = b,
      r_signature = None, r_publicKeyPem = None\<rparr>"

fun BUILTIN_TOOL_RELEASES :: "ToolName \<Rightarrow> string \<Rightarrow> ToolRelease option" where
  "BUILTIN_TOOL_RELEASES YtDlp platformKey =
     map_of
       [(''darwin-arm64'', builtin_release ''2026.02.21''
           ''https://github.com/yt-dlp/yt-dlp/releases/download/2026.02.21/yt-dlp_macos''
           ''13dc66e13e87c187e16bf0def71b35f118bc06145907739d5549d213a9e3b9e5'' ''yt-dlp''),
        (''darwin-x64'', builtin_release ''2026.02.21''
           ''https://github.com/yt-dlp/yt-dlp/releases/download/2026.02.21/yt-dlp_macos''
           ''13dc66e13e87c187e16bf0def71b35f118bc06145907739d5549d213a9e3b9e5'' ''yt-dlp''),
        (''linux-x64'', builtin_release ''2026.02.21''
           ''https://github.com/yt-dlp/yt-dlp/releases/download/2026.02.21/yt-dlp_linux''
           ''057098b1390e8d4931e143eb889e9bbe088f17e40a2936f31ee218909f806f5f'' ''yt-dlp''),
        (''linux-arm64'', builtin_release ''2026.02.21''
           ''https://github.com/yt-dlp/yt-dlp/releases/download/2026.02.21/yt-dlp_linux_aarch64''
           ''7571d3a9bb1ef31a490cd33c37341002006748078ed4d7fa617b0b6ce495f965'' ''yt-dlp''),
        (''win32-x64'', builtin_release ''2026.02.21''
           ''https://github.com/yt-dlp/yt-dlp/releases/download/2026.02.21/yt-dlp.exe''
           ''72a91fe064d5758c976e94f877c24369477dd3e395614b5b270dd5400a035ffa'' ''yt-dlp.exe''),
        (''win32-arm64'', builtin_release ''2026.02.21''
           ''https://github.com/yt-dlp/yt-dlp/releases/download/2026.02.21/yt-dlp_arm64.exe''
           ''17771a25b11af4bc8324de006b39fde7ff62deb8a95bf9000a182769f7b0450b'' ''yt-dlp.exe'')]
       platformKey"
| "BUILTIN_TOOL_RELEASES Ffmpeg platformKey = map_of [] platformKey"

definition REMOTE_MANIFEST_CACHE_TTL_MS :: int where
  "REMOTE_MANIFEST_CACHE_TTL_MS = 1000 * 60 * 60 * 6"

section \<open>The process environment and the libraries\<close>

text \<open>
  What the module reads from the process and from the platform's libraries, fixed during
  a run:
  \<^item> \<open>userData\<close>: \<open>app.getPath("userData")\<close>; \<open>platform\<close>, \<open>arch\<close>: \<open>process.platform\<close>,
    \<open>process.arch\<close>;
  \<^item> \<open>GH_OWNER\<close>, \<open>GH_REPO\<close>, \<open>GH_TAG\<close>, \<open>ASSET\<close>, \<open>PUBLIC_KEY_PEM\<close>: the environment variables
    \<open>KENKU_TOOL_MANIFEST_...\<close>, \<open>None\<close> when unset;
  \<^item> \<open>url_hostname\<close>: \<open>new URL(s).hostname\<close>, \<open>None\<close> when the constructor throws;
  \<^item> \<open>hash_hex\<close>: the SHA-256 digest of some bytes, in hexadecimal;
  \<^item> \<open>cryptoVerify payload key signature\<close>: \<open>crypto.verify("sha256", payload, key,
    Buffer.from(signature, "base64"))\<close>, \<open>None\<close> when the library throws;
  \<^item> \<open>Date_parse\<close>: \<open>Date.parse\<close>, \<open>None\<close> for NaN; \<open>toISOString\<close>: \<open>new Date(t).toISOString()\<close>;
  \<^item> \<open>path_basename\<close>, \<open>path_extname\<close>, \<open>pathToFileURL\<close>: the functions of these names.
\<close>

record env =
  userData :: string
  platform :: string
  arch :: string
  GH_OWNER :: "string option"
  GH_REPO :: "string option"
  GH_TAG :: "string option"
  ASSET :: "string option"
  PUBLIC_KEY_PEM :: "string option"
  url_hostname :: "string \<Rightarrow> string option"
  hash_hex :: "content \<Rightarrow> string"
  cryptoVerify :: "content \<Rightarrow> json \<Rightarrow> json \<Rightarrow> bool option"
  Date_parse :: "json \<Rightarrow> int option"
  toISOString :: "int \<Rightarrow> string"
  path_basename :: "string \<Rightarrow> string \<Rightarrow> string"
  path_extname :: "string \<Rightarrow> string"
  pathToFileURL :: "string \<Rightarrow> string"

text \<open>\<open>process.env.X || fallback\<close>: an unset or empty variable gives the fallback.\<close>

fun env_or :: "string option \<Rightarrow> string \<Rightarrow> string" where
  "env_or None d = d"
| "env_or (Some v) d = (if v = [] then d else v)"

definition REMOTE_MANIFEST_OWNER :: "env \<Rightarrow> string" where
  "REMOTE_MANIFEST_OWNER e = env_or (GH_OWNER e) ''Soteyl''"

definition REMOTE_MANIFEST_REPO :: "env \<Rightarrow> string" where
  "REMOTE_MANIFEST_REPO e = env_or (GH_REPO e) ''better-kenku-fm''"

definition REMOTE_MANIFEST_TAG :: "env \<Rightarrow> string" where
  "REMOTE_MANIFEST_TAG e = env_or (GH_TAG e) ''tool-manifest''"

definition REMOTE_MANIFEST_ASSET :: "env \<Rightarrow> string" where
  "REMOTE_MANIFEST_ASSET e = env_or (ASSET e) ''tools-manifest.json''"

definition REMOTE_MANIFEST_PUBLIC_KEY_PEM :: "env \<Rightarrow> json option" where
  "REMOTE_MANIFEST_PUBLIC_KEY_PEM e = map_option JStr (PUBLIC_KEY_PEM e)"

definition getRemoteManifestURL :: "env \<Rightarrow> string" where
  "getRemoteManifestURL e =
     ''https://github.com/'' @ REMOTE_MANIFEST_OWNER e @ ''/'' @ REMOTE_MANIFEST_REPO e
       @ ''/releases/download/'' @ REMOTE_MANIFEST_TAG e @ ''/'' @ REMOTE_MANIFEST_ASSET e"

definition getPlatformKey :: "env \<Rightarrow> string" where
  "getPlatformKey e = platform e @ ''-'' @ arch e"

text \<open>
  \<open>path.join\<close> of a directory and one more segment, with the POSIX separator; the
  normalisation of \<open>.\<close> and \<open>..\<close> segments is not modelled.
\<close>

definition path_join :: "string \<Rightarrow> string \<Rightarrow> string" where
  "path_join d n = d @ ''/'' @ n"

definition baseDir :: "env \<Rightarrow> string" where
  "baseDir e = path_join (userData e) ''optional-tools''"

definition binDir :: "env \<Rightarrow> string" where
  "binDir e = path_join (baseDir e) ''bin''"

definition tempDir :: "env \<Rightarrow> string" where
  "tempDir e = path_join (baseDir e) ''tmp''"

definition manifestPath :: "env \<Rightarrow> string" where
  "manifestPath e = path_join (baseDir e) ''tools.json''"

definition remoteManifestCachePath :: "env \<Rightarrow> string" where
  "remoteManifestCachePath e = path_join (baseDir e) ''tools-manifest-cache.json''"

definition mediaDir :: "env \<Rightarrow> string" where
  "mediaDir e = path_join (userData e) ''playlist-media''"

section \<open>The world: files, clock, network, processes\<close>

text \<open>A file: its bytes and its permission bits.\<close>

datatype fs_file = File (bytes: content) (mode: nat)

text \<open>What running a binary with some arguments on some files does: it cannot be started,
  or it closes with an exit code (\<open>None\<close> when a signal ends it), its two output streams,
  and the files it leaves.\<close>

datatype proc_result =
    SpawnFails
  | Closed "int option" string string "string \<Rightarrow> fs_file option"

text \<open>
  The state the module works on:
  \<^item> \<open>files\<close>: the regular files by path. Directories are not tracked: \<open>mkdir\<close> with
    \<open>recursive\<close> succeeds and changes no file, and a write to a path succeeds;
  \<^item> \<open>remoteManifestMemoryCache\<close>: the field of this name, \<open>None\<close> for \<open>null\<close>;
  \<^item> \<open>now\<close>: the clock in milliseconds, which stands still during one call;
  \<^item> \<open>net\<close>: what a GET of each URL produces;
  \<^item> \<open>run\<close>: what each subprocess does;
  \<^item> \<open>downloads\<close>: the calls of \<open>downloadToFile\<close> so far, newest first, as (url,
    destination): a record of the execution, read by no operation.
\<close>

record world =
  files :: "string \<Rightarrow> fs_file option"
  remoteManifestMemoryCache :: "json option"
  now :: int
  net :: "string \<Rightarrow> http_result"
  run :: "string \<Rightarrow> string list \<Rightarrow> (string \<Rightarrow> fs_file option) \<Rightarrow> proc_result"
  downloads :: "(string \<times> string) list"

definition exists_file :: "world \<Rightarrow> string \<Rightarrow> bool" where
  "exists_file w p = (files w p \<noteq> None)"

definition readFile :: "world \<Rightarrow> string \<Rightarrow> error + content" where
  "readFile w p = (case files w p of None \<Rightarrow> Inl (ENOENT p) | Some f \<Rightarrow> Inr (bytes f))"

text \<open>\<open>fs.writeFile\<close>: a new file gets mode \<open>0o644\<close>, an existing one keeps its mode.\<close>

definition writeFile :: "string \<Rightarrow> content \<Rightarrow> world \<Rightarrow> world" where
  "writeFile p c w =
     w\<lparr>files := (files w)(p \<mapsto> File c (case files w p of None \<Rightarrow> 420 | Some f \<Rightarrow> mode f))\<rparr>"

definition rename :: "string \<Rightarrow> string \<Rightarrow> world \<Rightarrow> error + world" where
  "rename src dst w =
     (case files w src of
        None \<Rightarrow> Inl (ENOENT src)
      | Some f \<Rightarrow> if src = dst then Inr w else Inr (w\<lparr>files := (files w)(src := None, dst \<mapsto> f)\<rparr>))"

definition chmod :: "string \<Rightarrow> nat \<Rightarrow> world \<Rightarrow> error + world" where
  "chmod p m w =
     (case files w p of
        None \<Rightarrow> Inl (ENOENT p)
      | Some f \<Rightarrow> Inr (w\<lparr>files := (files w)(p \<mapsto> File (bytes f) m)\<rparr>))"

text \<open>\<open>fs.rm(p, { force: true })\<close>\<close>

definition rm_force :: "string \<Rightarrow> world \<Rightarrow> world" where
  "rm_force p w = w\<lparr>files := (files w)(p := None)\<rparr>"

text \<open>\<open>this.sha256(filePath)\<close>: the digest of the file's bytes; reading a missing file throws.\<close>

definition sha256 :: "env \<Rightarrow> world \<Rightarrow> string \<Rightarrow> error + string" where
  "sha256 e w filePath =
     (case files w filePath of None \<Rightarrow> Inl (ENOENT filePath) | Some f \<Rightarrow> Inr (hash_hex e (bytes f)))"

section \<open>OptionalToolManager\<close>

text \<open>
  An operation that can throw and change the world returns \<open>(error + 'a) \<times> world\<close>: the
  thrown error or the value, and the world as it is at that moment.
\<close>

subsection \<open>Source classification\<close>

definition isYoutubeURL :: "env \<Rightarrow> string \<Rightarrow> bool" where
  "isYoutubeURL e val =
     (case url_hostname e (trim val) of
        None \<Rightarrow> False
      | Some hostname \<Rightarrow>
          (let host = toLowerCase hostname
           in host = ''youtube.com'' \<or> host = ''www.youtube.com'' \<or> host = ''m.youtube.com''
              \<or> host = ''youtu.be'' \<or> endsWith host ''.youtube.com''))"

subsection \<open>The remote catalog\<close>

text \<open>\<open>JSON.stringify({ version, generatedAt, tools })\<close>: an undefined property is left out.\<close>

definition signed_payload :: "json \<Rightarrow> content" where
  "signed_payload parsed =
     Json (JObj (List.map_filter (\<lambda>k. map_option (Pair k) (get parsed k))
       [''version'', ''generatedAt'', ''tools'']))"

definition parseAndValidateRemoteManifest :: "env \<Rightarrow> content \<Rightarrow> error + json" where
  "parseAndValidateRemoteManifest e buffer =
     (case JSON_parse buffer of
        None \<Rightarrow> Inl SyntaxError
      | Some parsed \<Rightarrow>
          if \<not> truthy (Some parsed) \<or> \<not> typeof_object (Some parsed)
             \<or> \<not> typeof_number (get parsed ''version'')
          then Inl InvalidManifest
          else if \<not> truthy (get parsed ''tools'') \<or> \<not> typeof_object (get parsed ''tools'')
          then Inl InvalidManifestPayload
          else if truthy (get parsed ''signature'') \<and> truthy (REMOTE_MANIFEST_PUBLIC_KEY_PEM e)
          then (case cryptoVerify e (signed_payload parsed)
                       (the (REMOTE_MANIFEST_PUBLIC_KEY_PEM e)) (the (get parsed ''signature'')) of
                  None \<Rightarrow> Inl CryptoError
                | Some valid \<Rightarrow> if \<not> valid then Inl ManifestSignatureFailed else Inr parsed)
          else Inr parsed)"

fun str_of :: "json option \<Rightarrow> string" where
  "str_of (Some (JStr s)) = s"
| "str_of _ = []"

definition toValidToolRelease :: "json option \<Rightarrow> ToolRelease option" where
  "toValidToolRelease val =
     (if \<not> truthy val \<or> \<not> typeof_object val then None
      else if \<not> typeof_string (get_opt val ''version'') \<or> \<not> typeof_string (get_opt val ''url'')
              \<or> \<not> typeof_string (get_opt val ''sha256'')
              \<or> \<not> typeof_string (get_opt val ''binaryName'')
      then None
      else if includes_char (str_of (get_opt val ''binaryName'')) CHR ''/''
              \<or> includes_char (str_of (get_opt val ''binaryName'')) (CHR 0x5C)
              \<or> length (trim (str_of (get_opt val ''binaryName''))) = 0
      then None
      else Some \<lparr>r_version = str_of (get_opt val ''version''),
                 r_url = str_of (get_opt val ''url''),
                 r_sha256 = toLowerCase (str_of (get_opt val ''sha256'')),
                 r_binaryName = str_of (get_opt val ''binaryName''),
                 r_signature = get_opt val ''signature'',
                 r_publicKeyPem = get_opt val ''publicKeyPem''\<rparr>)"

definition readRemoteManifestDiskCache :: "env \<Rightarrow> world \<Rightarrow> json option" where
  "readRemoteManifestDiskCache e w =
     (if \<not> exists_file w (remoteManifestCachePath e) then None
      else case readFile w (remoteManifestCachePath e) of
        Inl err \<Rightarrow> None
      | Inr c \<Rightarrow>
          (case JSON_parse c of
             None \<Rightarrow> None
           | Some parsed \<Rightarrow>
               if \<not> truthy (get parsed ''manifest'') \<or> \<not> truthy (get parsed ''fetchedAt'')
               then None else Some parsed))"

definition writeRemoteManifestDiskCache :: "env \<Rightarrow> json \<Rightarrow> world \<Rightarrow> (error + unit) \<times> world" where
  "writeRemoteManifestDiskCache e cache w =
     (let tempPath = remoteManifestCachePath e @ ''.tmp'';
          w1 = writeFile tempPath (Json cache) w
      in case rename tempPath (remoteManifestCachePath e) w1 of
           Inl err \<Rightarrow> (Inl err, w1)
         | Inr w2 \<Rightarrow> (Inr (), w2))"

text \<open>
  \<open>Number.isFinite(fetchedAt) && now - fetchedAt < REMOTE_MANIFEST_CACHE_TTL_MS\<close>, for the
  \<open>fetchedAt\<close> of a cache object that is not null; \<open>Date.parse(undefined)\<close> is NaN.
\<close>

definition is_fresh :: "env \<Rightarrow> int \<Rightarrow> json option \<Rightarrow> bool" where
  "is_fresh e t cache =
     (truthy cache \<and>
      (case get_opt cache ''fetchedAt'' of
         None \<Rightarrow> False
       | Some f \<Rightarrow> (case Date_parse e f of None \<Rightarrow> False
                    | Some fetchedAt \<Rightarrow> t - fetchedAt < REMOTE_MANIFEST_CACHE_TTL_MS)))"

text \<open>The body of the \<open>try\<close> block of \<open>getRemoteManifest\<close>.\<close>

definition fetchRemoteManifest :: "env \<Rightarrow> world \<Rightarrow> (error + json) \<times> world" where
  "fetchRemoteManifest e w =
     (case httpGetBuffer (net w) (getRemoteManifestURL e) 0 of
        Inl err \<Rightarrow> (Inl err, w)
      | Inr response \<Rightarrow>
          (case parseAndValidateRemoteManifest e response of
             Inl err \<Rightarrow> (Inl err, w)
           | Inr manifest \<Rightarrow>
               (let cache = JObj [(''fetchedAt'', JStr (toISOString e (now w))),
                                  (''manifest'', manifest)];
                    w1 = w\<lparr>remoteManifestMemoryCache := Some cache\<rparr>
                in case writeRemoteManifestDiskCache e cache w1 of
                     (Inl err, w2) \<Rightarrow> (Inl err, w2)
                   | (Inr u, w2) \<Rightarrow> (Inr manifest, w2))))"

definition getRemoteManifest :: "env \<Rightarrow> world \<Rightarrow> json option \<times> world" where
  "getRemoteManifest e w =
     (if is_fresh e (now w) (remoteManifestMemoryCache w)
      then (get_opt (remoteManifestMemoryCache w) ''manifest'', w)
      else
        (let diskCache = readRemoteManifestDiskCache e w
         in if is_fresh e (now w) diskCache
            then (get_opt diskCache ''manifest'', w\<lparr>remoteManifestMemoryCache := diskCache\<rparr>)
            else
              (case fetchRemoteManifest e w of
                 (Inr manifest, w1) \<Rightarrow> (Some manifest, w1)
               | (Inl err, w1) \<Rightarrow>
                   if truthy diskCache
                   then (get_opt diskCache ''manifest'', w1\<lparr>remoteManifestMemoryCache := diskCache\<rparr>)
                   else (None, w1))))"

subsection \<open>Resolving a release\<close>

text \<open>\<open>remoteManifest?.tools?.[tool]?.[platformKey]\<close>\<close>

definition remote_entry :: "json option \<Rightarrow> ToolName \<Rightarrow> string \<Rightarrow> json option" where
  "remote_entry remoteManifest tool platformKey =
     get_opt (get_opt (get_opt remoteManifest ''tools'') (tool_name tool)) platformKey"

definition getRelease :: "env \<Rightarrow> ToolName \<Rightarrow> world \<Rightarrow> (error + ToolRelease) \<times> world" where
  "getRelease e tool w =
     (let platformKey = getPlatformKey e
      in case getRemoteManifest e w of
           (remoteManifest, w1) \<Rightarrow>
             (case toValidToolRelease (remote_entry remoteManifest tool platformKey) of
                Some remoteRelease \<Rightarrow> (Inr remoteRelease, w1)
              | None \<Rightarrow>
                  (case BUILTIN_TOOL_RELEASES tool platformKey of
                     None \<Rightarrow> (Inl (UnsupportedPlatform tool (platform e) (arch e)), w1)
                   | Some release \<Rightarrow> (Inr release, w1))))"

subsection \<open>The local manifest\<close>

text \<open>\<open>ToolManifest\<close>: an object with the one property \<open>tools\<close>.\<close>

record ToolManifest =
  tools :: json

definition readManifest :: "env \<Rightarrow> world \<Rightarrow> ToolManifest" where
  "readManifest e w =
     (if \<not> exists_file w (manifestPath e) then \<lparr>tools = JObj []\<rparr>
      else case readFile w (manifestPath e) of
        Inl err \<Rightarrow> \<lparr>tools = JObj []\<rparr>
      | Inr c \<Rightarrow>
          (case JSON_parse c of
             None \<Rightarrow> \<lparr>tools = JObj []\<rparr>
           | Some parsed \<Rightarrow>
               (case get parsed ''tools'' of
                  None \<Rightarrow> \<lparr>tools = JObj []\<rparr>
                | Some t \<Rightarrow> if truthy (Some t) then \<lparr>tools = t\<rparr> else \<lparr>tools = JObj []\<rparr>)))"

definition writeManifest :: "env \<Rightarrow> ToolManifest \<Rightarrow> world \<Rightarrow> (error + unit) \<times> world" where
  "writeManifest e manifest w =
     (let tempPath = manifestPath e @ ''.tmp'';
          w1 = writeFile tempPath (Json (JObj [(''tools'', tools manifest)])) w
      in case rename tempPath (manifestPath e) w1 of
           Inl err \<Rightarrow> (Inl err, w1)
         | Inr w2 \<Rightarrow> (Inr (), w2))"

text \<open>
  \<open>target[k] = v\<close> as the file written afterwards shows it: an object gets the property (in
  place when it has the key, else at the end); an array takes a named property that
  \<open>JSON.stringify\<close> does not print; on a primitive the assignment throws in strict mode.
\<close>

fun set_prop :: "json \<Rightarrow> string \<Rightarrow> json \<Rightarrow> error + json" where
  "set_prop (JObj kvs) k v = Inr (JObj (AList.update k v kvs))"
| "set_prop (JArr xs) k v = Inr (JArr xs)"
| "set_prop _ k v = Inl TypeError"

text \<open>\<open>{ ...entry, k: v }\<close> for an entry that is an object.\<close>

fun spread_with :: "json option \<Rightarrow> string \<Rightarrow> json \<Rightarrow> json" where
  "spread_with (Some (JObj kvs)) k v = JObj (AList.update k v kvs)"
| "spread_with _ k v = JObj [(k, v)]"

subsection \<open>Installing a tool\<close>

definition downloadToFile :: "string \<Rightarrow> string \<Rightarrow> world \<Rightarrow> (error + unit) \<times> world" where
  "downloadToFile url destination w =
     (let w0 = w\<lparr>downloads := (url, destination) # downloads w\<rparr>
      in case httpGetBuffer (net w0) url 0 of
           Inl err \<Rightarrow> (Inl err, w0)
         | Inr response \<Rightarrow> (Inr (), writeFile destination response w0))"

definition verifyReleaseIntegrity ::
    "env \<Rightarrow> ToolName \<Rightarrow> string \<Rightarrow> ToolRelease \<Rightarrow> world \<Rightarrow> error + unit" where
  "verifyReleaseIntegrity e tool filePath release w =
     (case sha256 e w filePath of
        Inl err \<Rightarrow> Inl err
      | Inr hash \<Rightarrow>
          if hash \<noteq> r_sha256 release then Inl (ChecksumMismatch tool)
          else if truthy (r_signature release) \<and> truthy (r_publicKeyPem release)
          then (case cryptoVerify e
                       (Bytes (tool_name tool @ ''@'' @ r_version release @ '':'' @ hash))
                       (the (r_publicKeyPem release)) (the (r_signature release)) of
                  None \<Rightarrow> Inl CryptoError
                | Some valid \<Rightarrow> if \<not> valid then Inl (SignatureFailed tool) else Inr ())
          else Inr ())"

definition validExistingInstall ::
    "ToolRelease \<Rightarrow> string \<Rightarrow> json option \<Rightarrow> world \<Rightarrow> bool" where
  "validExistingInstall release binaryPath entry w =
     (get_opt entry ''binaryPath'' = Some (JStr binaryPath)
      \<and> get_opt entry ''version'' = Some (JStr (r_version release))
      \<and> get_opt entry ''sha256'' = Some (JStr (r_sha256 release))
      \<and> exists_file w binaryPath)"

text \<open>
  The block under \<open>if (validExistingInstall)\<close>: \<open>Some\<close> of the outcome when the call ends
  there, \<open>None\<close> when it goes on to download.
\<close>

definition verifyExistingInstall ::
    "env \<Rightarrow> ToolName \<Rightarrow> ToolRelease \<Rightarrow> string \<Rightarrow> ToolManifest \<Rightarrow> world
     \<Rightarrow> ((error + string) \<times> world) option" where
  "verifyExistingInstall e tool release binaryPath manifest w =
     (let entry = get (tools manifest) (tool_name tool)
      in if validExistingInstall release binaryPath entry w
         then (case sha256 e w binaryPath of
                 Inl err \<Rightarrow> Some (Inl err, w)
               | Inr currentHash \<Rightarrow>
                   if currentHash = r_sha256 release
                   then (case chmod binaryPath 493 w of
                           Inl err \<Rightarrow> Some (Inl err, w)
                         | Inr w1 \<Rightarrow>
                             (case set_prop (tools manifest) (tool_name tool)
                                     (spread_with entry ''lastVerifiedAt''
                                        (JStr (toISOString e (now w1)))) of
                                Inl err \<Rightarrow> Some (Inl err, w1)
                              | Inr t \<Rightarrow>
                                  (case writeManifest e \<lparr>tools = t\<rparr> w1 of
                                     (Inl err, w2) \<Rightarrow> Some (Inl err, w2)
                                   | (Inr u, w2) \<Rightarrow> Some (Inr binaryPath, w2))))
                   else None)
         else None)"

definition installed_entry :: "env \<Rightarrow> ToolRelease \<Rightarrow> string \<Rightarrow> world \<Rightarrow> json" where
  "installed_entry e release binaryPath w =
     JObj [(''version'', JStr (r_version release)),
           (''sha256'', JStr (r_sha256 release)),
           (''binaryPath'', JStr binaryPath),
           (''sourceUrl'', JStr (r_url release)),
           (''installedAt'', JStr (toISOString e (now w))),
           (''lastVerifiedAt'', JStr (toISOString e (now w)))]"

text \<open>The body of the \<open>try\<close> block of \<open>ensureToolInstalled\<close>.\<close>

definition downloadAndInstall ::
    "env \<Rightarrow> ToolName \<Rightarrow> ToolRelease \<Rightarrow> string \<Rightarrow> string \<Rightarrow> ToolManifest \<Rightarrow> world
     \<Rightarrow> (error + string) \<times> world" where
  "downloadAndInstall e tool release binaryPath tempPath manifest w =
     (case downloadToFile (r_url release) tempPath w of
        (Inl err, w1) \<Rightarrow> (Inl err, w1)
      | (Inr u, w1) \<Rightarrow>
          (case verifyReleaseIntegrity e tool tempPath release w1 of
             Inl err \<Rightarrow> (Inl err, w1)
           | Inr u \<Rightarrow>
               (case chmod tempPath 493 w1 of
                  Inl err \<Rightarrow> (Inl err, w1)
                | Inr w2 \<Rightarrow>
                    (case rename tempPath binaryPath w2 of
                       Inl err \<Rightarrow> (Inl err, w2)
                     | Inr w3 \<Rightarrow>
                         (case set_prop (tools manifest) (tool_name tool)
                                 (installed_entry e release binaryPath w3) of
                            Inl err \<Rightarrow> (Inl err, w3)
                          | Inr t \<Rightarrow>
                              (case writeManifest e \<lparr>tools = t\<rparr> w3 of
                                 (Inl err, w4) \<Rightarrow> (Inl err, w4)
                               | (Inr u, w4) \<Rightarrow> (Inr binaryPath, w4)))))))"

definition tempPath_of :: "env \<Rightarrow> ToolRelease \<Rightarrow> world \<Rightarrow> string" where
  "tempPath_of e release w =
     path_join (tempDir e) (r_binaryName release @ ''-'' @ show_int (now w) @ ''.tmp'')"

definition ensureToolInstalled :: "env \<Rightarrow> ToolName \<Rightarrow> world \<Rightarrow> (error + string) \<times> world" where
  "ensureToolInstalled e tool w =
     (case getRelease e tool w of
        (Inl err, w1) \<Rightarrow> (Inl err, w1)
      | (Inr release, w1) \<Rightarrow>
          (let binaryPath = path_join (binDir e) (r_binaryName release);
               manifest = readManifest e w1
           in case verifyExistingInstall e tool release binaryPath manifest w1 of
                Some outcome \<Rightarrow> outcome
              | None \<Rightarrow>
                  (let tempPath = tempPath_of e release w1
                   in case downloadAndInstall e tool release binaryPath tempPath manifest w1 of
                        (Inl err, w2) \<Rightarrow> (Inl err, rm_force tempPath w2)
                      | (Inr p, w2) \<Rightarrow> (Inr p, w2))))"

subsection \<open>Extraction\<close>

definition execBinary ::
    "string \<Rightarrow> string list \<Rightarrow> world \<Rightarrow> (error + int \<times> string \<times> string) \<times> world" where
  "execBinary binaryPath args w =
     (case run w binaryPath args (files w) of
        SpawnFails \<Rightarrow> (Inl SpawnError, w)
      | Closed code out err fs \<Rightarrow>
          (Inr (case code of None \<Rightarrow> 1 | Some c \<Rightarrow> c, out, err), w\<lparr>files := fs\<rparr>))"

text \<open>The characters that \<open>playlistId.replace(/[^a-zA-Z0-9-_]/g, "")\<close> keeps.\<close>

definition safe_char :: "char \<Rightarrow> bool" where
  "safe_char c =
     (let n = (of_char c :: nat)
      in (97 \<le> n \<and> n \<le> 122) \<or> (65 \<le> n \<and> n \<le> 90) \<or> (48 \<le> n \<and> n \<le> 57)
         \<or> c = CHR ''-'' \<or> c = CHR ''_'')"

text \<open>\<open>playlistId.replace(/[^a-zA-Z0-9-_]/g, "") || "default"\<close>\<close>

definition safePlaylistId :: "string \<Rightarrow> string" where
  "safePlaylistId playlistId =
     (if filter safe_char playlistId = [] then ''default'' else filter safe_char playlistId)"

definition extraction_args :: "string \<Rightarrow> string \<Rightarrow> string list" where
  "extraction_args targetDir sourceUrl =
     [''--no-playlist'', ''--no-progress'', ''--no-warnings'', ''-f'',
      ''bestaudio[ext=m4a]/bestaudio'', ''-P'', targetDir, ''-o'',
      ''%(title).120B-%(id)s.%(ext)s'', ''--print'', ''title'', ''--print'',
      ''after_move:filepath'', sourceUrl]"

text \<open>\<open>stdout.split(/\r?\n/).map((line) => line.trim()).filter(Boolean)\<close>\<close>

definition output_lines :: "string \<Rightarrow> string list" where
  "output_lines out = filter (\<lambda>line. line \<noteq> []) (map trim (split_lines out))"

definition downloadYoutubeAudio ::
    "env \<Rightarrow> string \<Rightarrow> string \<Rightarrow> string \<Rightarrow> world \<Rightarrow> (error + string \<times> string) \<times> world" where
  "downloadYoutubeAudio e ytDlpPath sourceUrl playlistId w =
     (let targetDir = path_join (mediaDir e) (safePlaylistId playlistId)
      in case execBinary ytDlpPath (extraction_args targetDir sourceUrl) w of
           (Inl err, w1) \<Rightarrow> (Inl err, w1)
         | (Inr (code, out, err), w1) \<Rightarrow>
             if code \<noteq> 0
             then (Inl (ExtractionFailed
                          (if err = [] then ''Failed to download YouTube audio'' else err)), w1)
             else
               (let lines = output_lines out
                in case (if lines = [] then None else Some (last lines)) of
                     None \<Rightarrow> (Inl OutputFileMissing, w1)
                   | Some filePath \<Rightarrow>
                       if filePath = [] \<or> \<not> exists_file w1 filePath
                       then (Inl OutputFileMissing, w1)
                       else
                         (let title = (case lines of
                                         [] \<Rightarrow> path_basename e filePath (path_extname e filePath)
                                       | l0 # ls \<Rightarrow>
                                           if l0 = []
                                           then path_basename e filePath (path_extname e filePath)
                                           else l0)
                          in (Inr (title, filePath), w1))))"

subsection \<open>Resolving a track source\<close>

datatype ToolSourceType = Direct | Youtube

record ResolvedTrackSource =
  sourceType :: ToolSourceType
  url :: string
  title :: "string option"
  localPath :: "string option"

definition resolveTrackSource ::
    "env \<Rightarrow> string \<Rightarrow> string \<Rightarrow> world \<Rightarrow> (error + ResolvedTrackSource) \<times> world" where
  "resolveTrackSource e source playlistId w =
     (let trimmed = trim source
      in if \<not> isYoutubeURL e trimmed
         then (Inr \<lparr>sourceType = Direct, url = trimmed, title = None, localPath = None\<rparr>, w)
         else
           (case ensureToolInstalled e YtDlp w of
              (Inl err, w1) \<Rightarrow> (Inl err, w1)
            | (Inr ytDlpPath, w1) \<Rightarrow>
                (case downloadYoutubeAudio e ytDlpPath trimmed playlistId w1 of
                   (Inl err, w2) \<Rightarrow> (Inl err, w2)
                 | (Inr (t, filePath), w2) \<Rightarrow>
                     (Inr \<lparr>sourceType = Youtube, url = pathToFileURL e filePath,
                           title = Some t, localPath = Some filePath\<rparr>, w2))))"

section \<open>Redirect chains\<close>

text \<open>
  \<open>hops nt u0 n\<close> is the URL reached from \<open>u0\<close> by following \<open>n\<close> redirects (responses with a
  status from 300 to 399 and a Location header), \<open>None\<close> when the chain stops earlier.
  A response that is not such a redirect ends the chain; \<open>terminal_result\<close> is what it stands
  for: the complete body on status 200, a failure otherwise.
\<close>

fun hops :: "(string \<Rightarrow> http_result) \<Rightarrow> string \<Rightarrow> nat \<Rightarrow> string option" where
  "hops nt u0 0 = Some u0"
| "hops nt u0 (Suc n) =
     (case nt u0 of
        RequestError \<Rightarrow> None
      | Response statusCode location body \<Rightarrow>
          (case location of
             None \<Rightarrow> None
           | Some l \<Rightarrow> if is_redirect statusCode location then hops nt l n else None))"

fun redirects :: "http_result \<Rightarrow> bool" where
  "redirects RequestError = False"
| "redirects (Response statusCode location body) = is_redirect statusCode location"

fun terminal_result :: "http_result \<Rightarrow> error + content" where
  "terminal_result RequestError = Inl TransportError"
| "terminal_result (Response statusCode location body) =
     (if statusCode = Some 200
      then (case body of None \<Rightarrow> Inl TransportError | Some b \<Rightarrow> Inr b)
      else Inl (DownloadFailed statusCode))"

definition net_201 :: "string \<Rightarrow> http_result" where
  "net_201 u = Response (Some 201) None (Some (Bytes ''created''))"

definition net_chain :: "string \<Rightarrow> http_result" where
  "net_chain u =
     (if u = ''a'' then Response (Some 302) (Some ''b'') None
      else if u = ''b'' then Response (Some 301) (Some ''c'') None
      else if u = ''c'' then Response (Some 200) None (Some (Bytes ''tool''))
      else if u = ''loop'' then Response (Some 307) (Some ''loop'') None
      else RequestError)"

section \<open>Classification, as the specification words it\<close>

text \<open>
  A source needs extraction when, trimmed, it parses as an absolute URL whose host, in lower
  case, is one of the four known names or ends with \<open>.youtube.com\<close>.
\<close>

definition video_host :: "string \<Rightarrow> bool" where
  "video_host h =
     (h \<in> {''youtube.com'', ''www.youtube.com'', ''m.youtube.com'', ''youtu.be''}
      \<or> suffix ''.youtube.com'' h)"

definition needs_extraction :: "env \<Rightarrow> string \<Rightarrow> bool" where
  "needs_extraction e s =
     (case url_hostname e (trim s) of None \<Rightarrow> False | Some h \<Rightarrow> video_host (toLowerCase h))"

section \<open>A concrete environment and world\<close>

text \<open>
  The instances below evaluate the properties on concrete inputs. The URL parser knows
  four strings, the digest of some bytes is the bytes themselves, and a signature
  verifies when it is the string \<open>good\<close>.
\<close>

definition demo_hostname :: "string \<Rightarrow> string option" where
  "demo_hostname s =
     (if s = ''https://youtu.be/abc123'' then Some ''youtu.be''
      else if s = ''https://m.youtube.com/watch?v=abc123'' then Some ''m.youtube.com''
      else if s = ''https://example.com/song.mp3'' then Some ''example.com''
      else None)"

definition demo_hash :: "content \<Rightarrow> string" where
  "demo_hash c = (case c of Bytes b \<Rightarrow> b | Json j \<Rightarrow> ''json'')"

definition demo_date :: "json \<Rightarrow> int option" where
  "demo_date j =
     (case j of JStr s \<Rightarrow> (if s = ''t0'' then Some 0 else if s = ''t1'' then Some 100000000 else None)
      | _ \<Rightarrow> None)"

definition demo_env :: env where
  "demo_env =
     \<lparr>userData = ''/data'', platform = ''linux'', arch = ''x64'',
      GH_OWNER = None, GH_REPO = None, GH_TAG = None, ASSET = None,
      PUBLIC_KEY_PEM = Some ''KEY'',
      url_hostname = demo_hostname, hash_hex = demo_hash,
      cryptoVerify = (\<lambda>payload key signature. Some (signature = JStr ''good'')),
      Date_parse = demo_date,
      toISOString = (\<lambda>t. if t = 0 then ''t0'' else ''t1''),
      path_basename = (\<lambda>p ext. p), path_extname = (\<lambda>p. []),
      pathToFileURL = (\<lambda>p. ''file://'' @ p)\<rparr>"

definition demo_world :: world where
  "demo_world =
     \<lparr>files = Map.empty, remoteManifestMemoryCache = None, now = 100000000,
      net = (\<lambda>u. RequestError), run = (\<lambda>p args fs. SpawnFails), downloads = []\<rparr>"

section \<open>Catalog validation, as the specification words it\<close>

text \<open>
  A catalog is structurally valid when it is an object with a numeric version and an
  object-shaped tool table. A rejection for a signature reason is one of the two errors of
  the signature check. \<open>fails_to_verify\<close>: the catalog has a signature property, a key is
  set, and the library does not answer that the signature is valid for the payload.
\<close>

definition structurally_valid :: "json \<Rightarrow> bool" where
  "structurally_valid parsed =
     (truthy (Some parsed) \<and> typeof_object (Some parsed) \<and> typeof_number (get parsed ''version'')
      \<and> truthy (get parsed ''tools'') \<and> typeof_object (get parsed ''tools''))"

definition signature_rejection :: "error + json \<Rightarrow> bool" where
  "signature_rejection res = (res = Inl ManifestSignatureFailed \<or> res = Inl CryptoError)"

definition fails_to_verify :: "env \<Rightarrow> json \<Rightarrow> bool" where
  "fails_to_verify e parsed =
     (case get parsed ''signature'' of
        None \<Rightarrow> False
      | Some sg \<Rightarrow>
          (case REMOTE_MANIFEST_PUBLIC_KEY_PEM e of
             None \<Rightarrow> False
           | Some key \<Rightarrow> cryptoVerify e (signed_payload parsed) key sg \<noteq> Some True))"

definition catalog_with :: "(string \<times> json) list \<Rightarrow> json" where
  "catalog_with extra =
     JObj ([(''version'', JNum 1), (''generatedAt'', JStr ''t0''), (''tools'', JObj [])] @ extra)"

section \<open>Catalog fetches that fail\<close>

text \<open>
  \<open>getRemoteManifest\<close> reaches the network when neither the memory cache nor the disk cache is
  fresh; the fetch fails when the GET fails or when the response is rejected by
  \<open>parseAndValidateRemoteManifest\<close> (bad JSON, bad structure, bad signature).
  \<open>stale_world memory disk\<close> is a world with an unreachable network, the given memory cache
  and the given cache object on disk.
\<close>

definition fetch_attempted :: "env \<Rightarrow> world \<Rightarrow> bool" where
  "fetch_attempted e w =
     (\<not> is_fresh e (now w) (remoteManifestMemoryCache w)
      \<and> \<not> is_fresh e (now w) (readRemoteManifestDiskCache e w))"

definition fetch_fails :: "env \<Rightarrow> world \<Rightarrow> bool" where
  "fetch_fails e w =
     (case httpGetBuffer (net w) (getRemoteManifestURL e) 0 of
        Inl err \<Rightarrow> True
      | Inr response \<Rightarrow>
          (case parseAndValidateRemoteManifest e response of Inl err \<Rightarrow> True | Inr m \<Rightarrow> False))"

definition cache_of :: "string \<Rightarrow> json \<Rightarrow> json" where
  "cache_of fetchedAt manifest = JObj [(''fetchedAt'', JStr fetchedAt), (''manifest'', manifest)]"

definition cache_file :: "env \<Rightarrow> json \<Rightarrow> string \<Rightarrow> fs_file option" where
  "cache_file e cache p = (if p = remoteManifestCachePath e then Some (File (Json cache) 420) else None)"

definition stale_world :: "json option \<Rightarrow> json \<Rightarrow> world" where
  "stale_world memory disk =
     demo_world\<lparr>files := cache_file demo_env disk, remoteManifestMemoryCache := memory\<rparr>"

definition other_catalog :: json where
  "other_catalog = catalog_with [(''note'', JStr ''other'')]"

section \<open>Extraction runs\<close>






section \<open>TrackAdd: the progress shown by the dialog\<close>

text \<open>
  Modelled from the spec: the type \<open>TrackSourceProgress\<close> is declared in \<open>types/player\<close>,
  which is not among the sources. The specification gives a progress event as a stage, a
  message and an optional number from 0 to 100, and \<open>TrackAdd.tsx\<close> reads exactly these three
  properties. A number is a real here.
\<close>

record TrackSourceProgress =
  stage :: string
  message :: string
  progress :: "real option"

text \<open>The two pieces of the component's state that the progress handler reads and sets.\<close>

record TrackAddState =
  requestId :: "string option"
  progressState :: "TrackSourceProgress option"

text \<open>The updater that \<open>handleProgress\<close> passes to \<open>setProgress\<close>.\<close>

definition mergeProgress ::
    "TrackSourceProgress option \<Rightarrow> TrackSourceProgress \<Rightarrow> TrackSourceProgress" where
  "mergeProgress prev incomingProgress =
     (case prev of
        None \<Rightarrow> incomingProgress
      | Some p \<Rightarrow>
          (let prevValue = progress p;
               incomingValue = progress incomingProgress
           in if prevValue \<noteq> None \<and> incomingValue \<noteq> None \<and> the incomingValue < the prevValue
              then incomingProgress\<lparr>progress := prevValue\<rparr>
              else if prevValue \<noteq> None \<and> incomingValue = None
                      \<and> stage incomingProgress = ''download-audio''
              then incomingProgress\<lparr>progress := prevValue\<rparr>
              else incomingProgress))"

definition handleProgress ::
    "TrackAddState \<Rightarrow> string \<times> TrackSourceProgress \<Rightarrow> TrackAddState" where
  "handleProgress st args =
     (case args of
        (incomingRequestId, incomingProgress) \<Rightarrow>
          if incomingRequestId \<noteq> [] \<and> Some incomingRequestId = requestId st
          then st\<lparr>progressState := Some (mergeProgress (progressState st) incomingProgress)\<rparr>
          else st)"

text \<open>What \<open>handleSubmit\<close> sets before it calls \<open>resolveTrackSource\<close>, \<open>uid\<close> being the fresh
  UUID it names \<open>id\<close>.\<close>

definition handleSubmit :: "string \<Rightarrow> TrackAddState \<Rightarrow> TrackAddState" where
  "handleSubmit uid st =
     st\<lparr>requestId := Some uid,
        progressState := Some \<lparr>stage = ''prepare'', message = ''Preparing import pipeline...'',
                               progress = Some 5\<rparr>\<rparr>"

text \<open>The number the progress bar shows.\<close>

definition visible_progress :: "TrackAddState \<Rightarrow> real option" where
  "visible_progress st = (case progressState st of None \<Rightarrow> None | Some p \<Rightarrow> progress p)"

text \<open>The numbers carried by a list of delivered events, in order.\<close>

definition delivered_values :: "(string \<times> TrackSourceProgress) list \<Rightarrow> real list" where
  "delivered_values evs = List.map_filter (\<lambda>ev. progress (snd ev)) evs"

definition closed_dialog :: TrackAddState where
  "closed_dialog = \<lparr>requestId = None, progressState = None\<rparr>"

definition event :: "string \<Rightarrow> string \<Rightarrow> real option \<Rightarrow> string \<times> TrackSourceProgress" where
  "event rid st v = (rid, \<lparr>stage = st, message = ''...'', progress = v\<rparr>)"

section \<open>Installed tools\<close>

text \<open>
  \<open>installed_ok\<close>: the local manifest records the release for the tool at the binary path,
  the binary exists, and its digest is the recorded one. The worlds below install the
  built-in release of yt-dlp for linux-x64: \<open>install_world body\<close> has no file and serves
  \<open>body\<close> at the release's URL; \<open>installed_world body\<close> is what a successful install leaves;
  \<open>second_world\<close> is that world half a second later.
\<close>

definition installed_ok :: "env \<Rightarrow> ToolName \<Rightarrow> ToolRelease \<Rightarrow> world \<Rightarrow> bool" where
  "installed_ok e tool release w =
     (validExistingInstall release (path_join (binDir e) (r_binaryName release))
        (get (tools (readManifest e w)) (tool_name tool)) w
      \<and> sha256 e w (path_join (binDir e) (r_binaryName release)) = Inr (r_sha256 release))"

definition linux_url :: string where
  "linux_url = ''https://github.com/yt-dlp/yt-dlp/releases/download/2026.02.21/yt-dlp_linux''"

definition linux_sha :: string where
  "linux_sha = ''057098b1390e8d4931e143eb889e9bbe088f17e40a2936f31ee218909f806f5f''"

definition linux_release :: ToolRelease where
  "linux_release = builtin_release ''2026.02.21'' linux_url linux_sha ''yt-dlp''"

definition install_world :: "content \<Rightarrow> world" where
  "install_world body =
     demo_world\<lparr>net := (\<lambda>u. if u = linux_url then Response (Some 200) None (Some body)
                            else RequestError)\<rparr>"

definition linux_binary :: string where
  "linux_binary = ''/data/optional-tools/bin/yt-dlp''"

definition installed_world :: "content \<Rightarrow> world" where
  "installed_world body =
     snd (writeManifest demo_env
        \<lparr>tools = JObj (AList.update (tool_name YtDlp)
            (installed_entry demo_env linux_release linux_binary (install_world body)) [])\<rparr>
        ((install_world body)\<lparr>downloads :=
             [(linux_url, tempPath_of demo_env linux_release (install_world body))],
           files := (files (install_world body))
             (tempPath_of demo_env linux_release (install_world body) := None,
              linux_binary \<mapsto> File body 493)\<rparr>))"

definition second_world :: world where
  "second_world = (installed_world (Bytes linux_sha))\<lparr>now := 100000500\<rparr>"

section \<open>Properties\<close>

subsection \<open>C7: bounded-redirect fetch\<close>

lemma is_redirect_Some: "is_redirect s l \<Longrightarrow> \<exists>loc. l = Some loc"
  by (cases s; cases l) auto

lemma httpGetBuffer_terminal:
  "hops nt u0 k = Some u \<Longrightarrow> c + k \<le> 5 \<Longrightarrow> \<not> redirects (nt u)
   \<Longrightarrow> httpGetBuffer nt u0 c = terminal_result (nt u)"
proof (induction k arbitrary: u0 c)
  case 0
  then have "u0 = u" and "c \<le> 5" by simp_all
  with "0.prems"(3) show ?case
    by (cases "nt u") (auto simp: httpGetBuffer.simps [of nt u c] split: option.splits)
next
  case (Suc k)
  from Suc.prems(1) obtain s l b where r: "nt u0 = Response s (Some l) b"
    and red: "is_redirect s (Some l)" and h: "hops nt l k = Some u"
    by (auto split: http_result.splits option.splits if_splits)
  have "httpGetBuffer nt u0 c = httpGetBuffer nt l (Suc c)"
    using r red Suc.prems(2) by (simp add: httpGetBuffer.simps [of nt u0 c])
  also have "\<dots> = terminal_result (nt u)"
    using Suc.IH [OF h _ Suc.prems(3), of "Suc c"] Suc.prems(2) by simp
  finally show ?case .
qed

lemma httpGetBuffer_too_many:
  "hops nt u0 k = Some u \<Longrightarrow> c + k > 5 \<Longrightarrow> httpGetBuffer nt u0 c = Inl TooManyRedirects"
proof (induction k arbitrary: u0 c)
  case 0
  then have "u0 = u" and "5 < c" by simp_all
  then show ?case by (simp add: httpGetBuffer.simps [of nt u c])
next
  case (Suc k)
  from Suc.prems(1) obtain s l b where r: "nt u0 = Response s (Some l) b"
    and red: "is_redirect s (Some l)" and h: "hops nt l k = Some u"
    by (auto split: http_result.splits option.splits if_splits)
  show ?case
  proof (cases "c > 5")
    case True
    then show ?thesis by (simp add: httpGetBuffer.simps [of nt u0 c])
  next
    case False
    then have "httpGetBuffer nt u0 c = httpGetBuffer nt l (Suc c)"
      using r red by (simp add: httpGetBuffer.simps [of nt u0 c])
    also have "\<dots> = Inl TooManyRedirects"
      using Suc.IH [OF h, of "Suc c"] Suc.prems(2) by simp
    finally show ?thesis .
  qed
qed

lemma httpGetBuffer_success:
  "httpGetBuffer nt u0 c = Inr b
   \<Longrightarrow> \<exists>k u l. c + k \<le> 5 \<and> hops nt u0 k = Some u \<and> nt u = Response (Some 200) l (Some b)"
proof (induction nt u0 c rule: httpGetBuffer.induct)
  case (1 nt u0 c)
  from "1.prems" have c: "c \<le> 5"
    by (simp add: httpGetBuffer.simps [of nt u0 c] split: if_splits)
  from "1.prems" c obtain s l body where r: "nt u0 = Response s l body"
    by (cases "nt u0") (auto simp: httpGetBuffer.simps [of nt u0 c])
  show ?case
  proof (cases "is_redirect s l")
    case True
    then obtain loc where l: "l = Some loc" using is_redirect_Some by blast
    have "httpGetBuffer nt loc (c + 1) = Inr b"
      using "1.prems" c r True l by (simp add: httpGetBuffer.simps [of nt u0 c])
    from "1.IH" [OF _ r True] c this l
    obtain k u l' where "c + 1 + k \<le> 5" "hops nt loc k = Some u"
      "nt u = Response (Some 200) l' (Some b)"
      by auto
    then have "c + Suc k \<le> 5 \<and> hops nt u0 (Suc k) = Some u
      \<and> nt u = Response (Some 200) l' (Some b)"
      using r True l by simp
    then show ?thesis by blast
  next
    case False
    with "1.prems" c r have "s = Some 200" "body = Some b"
      by (auto simp: httpGetBuffer.simps [of nt u0 c] split: if_splits option.splits)
    then have "c + 0 \<le> 5 \<and> hops nt u0 0 = Some u0 \<and> nt u0 = Response (Some 200) l (Some b)"
      using r c by simp
    then show ?thesis by blast
  qed
qed

text \<open>
  Claim C7, as amended. From any URL: when at most 5 redirects lead to a response that is
  not a redirect, \<open>httpGetBuffer\<close> returns that response's complete body if its status is
  exactly 200, fails with \<open>DownloadFailed\<close> on every other status (201 to 299 included) and
  with \<open>TransportError\<close> on a transport error; when a sixth redirect follows, it fails with
  the distinct \<open>TooManyRedirects\<close>; and it returns a body only in the first way.
\<close>

theorem httpGetBuffer_outcomes:
  "(k \<le> 5 \<and> hops nt u0 k = Some u \<and> \<not> redirects (nt u)
      \<longrightarrow> httpGetBuffer nt u0 0 = terminal_result (nt u))
   \<and> (hops nt u0 6 = Some u' \<longrightarrow> httpGetBuffer nt u0 0 = Inl TooManyRedirects)
   \<and> (httpGetBuffer nt u0 0 = Inr b
      \<longrightarrow> (\<exists>j v l. j \<le> 5 \<and> hops nt u0 j = Some v \<and> nt v = Response (Some 200) l (Some b)))"
proof (intro conjI impI)
  assume "k \<le> 5 \<and> hops nt u0 k = Some u \<and> \<not> redirects (nt u)"
  then show "httpGetBuffer nt u0 0 = terminal_result (nt u)"
    using httpGetBuffer_terminal [of nt u0 k u 0] by simp
next
  assume "hops nt u0 6 = Some u'"
  then show "httpGetBuffer nt u0 0 = Inl TooManyRedirects"
    using httpGetBuffer_too_many [of nt u0 6 u' 0] by simp
next
  assume "httpGetBuffer nt u0 0 = Inr b"
  then show "\<exists>j v l. j \<le> 5 \<and> hops nt u0 j = Some v \<and> nt v = Response (Some 200) l (Some b)"
    using httpGetBuffer_success [of nt u0 0 b] by simp
qed

lemma hops_chain: "hops net_chain ''a'' 2 = Some ''c''"
  by (simp add: numeral_2_eq_2 net_chain_def)

lemma hops_loop: "hops net_chain ''loop'' 6 = Some ''loop''"
  by (simp add: eval_nat_numeral net_chain_def)

theorem httpGetBuffer_outcomes_witness:
  "hops net_chain ''a'' 2 = Some ''c''
   \<and> httpGetBuffer net_chain ''a'' 0 = Inr (Bytes ''tool'')
   \<and> hops net_chain ''loop'' 6 = Some ''loop''
   \<and> httpGetBuffer net_chain ''loop'' 0 = Inl TooManyRedirects"
proof -
  have "\<not> redirects (net_chain ''c'')" by (simp add: net_chain_def)
  then have a: "httpGetBuffer net_chain ''a'' 0 = terminal_result (net_chain ''c'')"
    using httpGetBuffer_outcomes [where nt = net_chain and ?u0.0 = "''a''" and k = 2 and u = "''c''"]
      hops_chain by simp
  have b: "httpGetBuffer net_chain ''loop'' 0 = Inl TooManyRedirects"
    using httpGetBuffer_outcomes [where nt = net_chain and ?u0.0 = "''loop''" and u' = "''loop''"]
      hops_loop by simp
  show ?thesis using a b hops_chain hops_loop by (simp add: net_chain_def)
qed

text \<open>
  Claim C7 as stated fails: a terminal response with the 2xx status 201 and a body makes
  \<open>httpGetBuffer\<close> fail instead of returning the body.
\<close>

theorem httpGetBuffer_2xx_counterexample:
  "httpGetBuffer net_201 ''https://example.com/tool'' 0 = Inl (DownloadFailed (Some 201))"
  by (simp add: httpGetBuffer.simps net_201_def)

subsection \<open>C1: source classification\<close>

lemma endsWith_suffix: "endsWith s t = suffix t s"
proof
  assume "endsWith s t"
  then have "s = take (length s - length t) s @ t"
    by (metis append_take_drop_id endsWith_def)
  then show "suffix t s" by (metis suffixI)
next
  assume "suffix t s"
  then obtain ys where "s = ys @ t" by (auto simp: suffix_def)
  then show "endsWith s t" by (simp add: endsWith_def)
qed

lemma dropWhile_rev_trimmed:
  "dropWhile P (rev (dropWhile P (rev (dropWhile P s)))) = rev (dropWhile P (rev (dropWhile P s)))"
proof (cases "dropWhile P (rev (dropWhile P s)) = []")
  case True
  show ?thesis unfolding True by simp
next
  case False
  let ?t = "dropWhile P s"
  let ?r = "dropWhile P (rev ?t)"
  from False have t: "?t \<noteq> []"
    by (metis dropWhile.simps(1) rev.simps(1))
  from False have "\<not> (\<forall>x\<in>set (rev ?t). P x)"
    by (metis dropWhile_eq_Nil_conv)
  then obtain x where x: "x \<in> set (rev ?t)" "\<not> P x"
    by blast
  then have "last ?r = last (rev ?t)" by (rule dropWhile_last)
  also have "\<dots> = hd ?t" using t by (simp add: last_rev)
  finally have "\<not> P (last ?r)" using t hd_dropWhile [of P s] by simp
  then have "\<not> P (hd (rev ?r))" using False by (simp add: hd_rev)
  then show ?thesis by (simp add: dropWhile_eq_self_iff)
qed

lemma trim_trim: "trim (trim s) = trim s"
  by (simp add: trim_def dropWhile_rev_trimmed)

lemma isYoutubeURL_spec: "isYoutubeURL e s = needs_extraction e s"
  by (auto simp: isYoutubeURL_def needs_extraction_def video_host_def endsWith_suffix Let_def
      split: option.splits)

lemma ensure_download_sourceType:
  "(case ensureToolInstalled e YtDlp w of
      (Inl err, w1) \<Rightarrow> (Inl err, w1)
    | (Inr ytDlpPath, w1) \<Rightarrow>
        (case downloadYoutubeAudio e ytDlpPath t pid w1 of
           (Inl err, w2) \<Rightarrow> (Inl err, w2)
         | (Inr (tt, filePath), w2) \<Rightarrow>
             (Inr \<lparr>sourceType = Youtube, url = pathToFileURL e filePath,
                   title = Some tt, localPath = Some filePath\<rparr>, w2))) = (Inr r, w')
   \<Longrightarrow> sourceType r = Youtube"
  by (auto split: prod.splits sum.splits)

text \<open>
  Claim C1. \<open>isYoutubeURL\<close> holds of a string exactly when the string needs extraction in
  the specification's sense. Every other input makes \<open>resolveTrackSource\<close> return the direct
  result whose \<open>url\<close> is the trimmed input, in an unchanged world: nothing is installed,
  downloaded or run. A successful result has \<open>sourceType\<close> \<open>Youtube\<close> exactly when the input
  needs extraction.
\<close>

theorem resolveTrackSource_classification:
  "isYoutubeURL e src = needs_extraction e src
   \<and> (\<not> needs_extraction e src \<longrightarrow>
        resolveTrackSource e src pid w =
          (Inr \<lparr>sourceType = Direct, url = trim src, title = None, localPath = None\<rparr>, w))
   \<and> (resolveTrackSource e src pid w = (Inr r, w') \<longrightarrow>
        (sourceType r = Youtube) = needs_extraction e src)"
proof (intro conjI impI)
  show "isYoutubeURL e src = needs_extraction e src" by (rule isYoutubeURL_spec)
next
  assume "\<not> needs_extraction e src"
  then have "\<not> isYoutubeURL e (trim src)"
    by (simp add: isYoutubeURL_spec needs_extraction_def trim_trim)
  then show "resolveTrackSource e src pid w =
      (Inr \<lparr>sourceType = Direct, url = trim src, title = None, localPath = None\<rparr>, w)"
    by (simp add: resolveTrackSource_def)
next
  assume res: "resolveTrackSource e src pid w = (Inr r, w')"
  have cls: "isYoutubeURL e (trim src) = needs_extraction e src"
    by (simp add: isYoutubeURL_spec needs_extraction_def trim_trim)
  show "(sourceType r = Youtube) = needs_extraction e src"
  proof (cases "needs_extraction e src")
    case True
    with res cls show ?thesis
      using ensure_download_sourceType [where e = e and w = w and t = "trim src" and pid = pid]
      by (simp add: resolveTrackSource_def)
  next
    case False
    with res cls show ?thesis
      by (auto simp: resolveTrackSource_def)
  qed
qed

lemma demo_direct: "\<not> needs_extraction demo_env '' /local/path/song.wav ''"
  by (simp add: needs_extraction_def demo_env_def demo_hostname_def trim_def isWhiteSpace_def)

theorem resolveTrackSource_classification_witness:
  "\<not> needs_extraction demo_env '' /local/path/song.wav ''
   \<and> resolveTrackSource demo_env '' /local/path/song.wav '' ''playlist-1'' demo_world =
       (Inr \<lparr>sourceType = Direct, url = ''/local/path/song.wav'', title = None,
             localPath = None\<rparr>, demo_world)
   \<and> isYoutubeURL demo_env ''https://youtu.be/abc123''
   \<and> needs_extraction demo_env ''https://m.youtube.com/watch?v=abc123''
   \<and> \<not> isYoutubeURL demo_env ''https://example.com/song.mp3''"
proof -
  have t: "trim '' /local/path/song.wav '' = ''/local/path/song.wav''"
    by (simp add: trim_def isWhiteSpace_def)
  have a: "resolveTrackSource demo_env '' /local/path/song.wav '' ''playlist-1'' demo_world =
       (Inr \<lparr>sourceType = Direct, url = ''/local/path/song.wav'', title = None,
             localPath = None\<rparr>, demo_world)"
    using resolveTrackSource_classification
      [of demo_env "'' /local/path/song.wav ''" "''playlist-1''" demo_world] demo_direct t
    by simp
  have b: "isYoutubeURL demo_env ''https://youtu.be/abc123''"
    unfolding resolveTrackSource_classification [THEN conjunct1]
    by (simp add: needs_extraction_def demo_env_def demo_hostname_def trim_def isWhiteSpace_def
        video_host_def toLowerCase_def lowerChar_def suffix_to_prefix)
  have c: "needs_extraction demo_env ''https://m.youtube.com/watch?v=abc123''"
    by (simp add: needs_extraction_def demo_env_def demo_hostname_def trim_def isWhiteSpace_def
        video_host_def toLowerCase_def lowerChar_def suffix_to_prefix)
  have d: "\<not> isYoutubeURL demo_env ''https://example.com/song.mp3''"
    unfolding resolveTrackSource_classification [THEN conjunct1]
    by (simp add: needs_extraction_def demo_env_def demo_hostname_def trim_def isWhiteSpace_def
        video_host_def toLowerCase_def lowerChar_def suffix_to_prefix)
  show ?thesis using demo_direct a b c d by simp
qed

subsection \<open>C4: the catalog signature\<close>

text \<open>
  Claim C4, as amended. \<open>parseAndValidateRemoteManifest\<close> rejects a catalog for a signature
  reason exactly when the catalog is structurally valid, carries a truthy (for a string:
  non-empty) signature, a non-empty verification key is configured, and the signature fails
  to verify over the payload of version, generatedAt and tools. A structurally valid
  catalog that is not rejected so is accepted unchanged; in particular one with no
  signature property, whatever key is configured.
\<close>

theorem parseAndValidate_signature:
  "signature_rejection (parseAndValidateRemoteManifest e buffer) =
     (case JSON_parse buffer of
        None \<Rightarrow> False
      | Some parsed \<Rightarrow>
          structurally_valid parsed \<and> truthy (get parsed ''signature'')
          \<and> truthy (REMOTE_MANIFEST_PUBLIC_KEY_PEM e) \<and> fails_to_verify e parsed)
   \<and> (JSON_parse buffer = Some parsed \<and> structurally_valid parsed
        \<and> \<not> signature_rejection (parseAndValidateRemoteManifest e buffer)
      \<longrightarrow> parseAndValidateRemoteManifest e buffer = Inr parsed)
   \<and> (JSON_parse buffer = Some parsed \<and> structurally_valid parsed
        \<and> get parsed ''signature'' = None
      \<longrightarrow> parseAndValidateRemoteManifest e buffer = Inr parsed)"
proof (intro conjI impI)
  show "signature_rejection (parseAndValidateRemoteManifest e buffer) =
     (case JSON_parse buffer of
        None \<Rightarrow> False
      | Some parsed \<Rightarrow>
          structurally_valid parsed \<and> truthy (get parsed ''signature'')
          \<and> truthy (REMOTE_MANIFEST_PUBLIC_KEY_PEM e) \<and> fails_to_verify e parsed)"
  proof (cases "JSON_parse buffer")
    case None
    then show ?thesis
      by (simp add: parseAndValidateRemoteManifest_def signature_rejection_def)
  next
    case (Some parsed)
    show ?thesis
    proof (cases "structurally_valid parsed")
      case False
      with Some show ?thesis
        by (auto simp: parseAndValidateRemoteManifest_def signature_rejection_def
            structurally_valid_def)
    next
      case True
      show ?thesis
      proof (cases "truthy (get parsed ''signature'') \<and> truthy (REMOTE_MANIFEST_PUBLIC_KEY_PEM e)")
        case False
        with Some True show ?thesis
          by (auto simp: parseAndValidateRemoteManifest_def signature_rejection_def
              structurally_valid_def)
      next
        case tr: True
        then obtain sg key where sk: "get parsed ''signature'' = Some sg"
          "REMOTE_MANIFEST_PUBLIC_KEY_PEM e = Some key"
          by (cases "get parsed ''signature''"; cases "REMOTE_MANIFEST_PUBLIC_KEY_PEM e") auto
        with Some True tr show ?thesis
          by (cases "cryptoVerify e (signed_payload parsed) key sg")
            (auto simp: parseAndValidateRemoteManifest_def signature_rejection_def
              structurally_valid_def fails_to_verify_def)
      qed
    qed
  qed
next
  assume a: "JSON_parse buffer = Some parsed \<and> structurally_valid parsed
        \<and> \<not> signature_rejection (parseAndValidateRemoteManifest e buffer)"
  then show "parseAndValidateRemoteManifest e buffer = Inr parsed"
    by (auto simp: parseAndValidateRemoteManifest_def signature_rejection_def
        structurally_valid_def split: option.splits if_splits)
next
  assume "JSON_parse buffer = Some parsed \<and> structurally_valid parsed
        \<and> get parsed ''signature'' = None"
  then show "parseAndValidateRemoteManifest e buffer = Inr parsed"
    by (auto simp: parseAndValidateRemoteManifest_def structurally_valid_def)
qed

lemma catalog_valid: "structurally_valid (catalog_with extra)"
  by (simp add: structurally_valid_def catalog_with_def)

theorem parseAndValidate_signature_witness:
  "signature_rejection
     (parseAndValidateRemoteManifest demo_env (Json (catalog_with [(''signature'', JStr ''bad'')])))
   \<and> parseAndValidateRemoteManifest demo_env (Json (catalog_with [])) = Inr (catalog_with [])
   \<and> structurally_valid (catalog_with [])
   \<and> get (catalog_with []) ''signature'' = None
   \<and> PUBLIC_KEY_PEM demo_env = Some ''KEY''"
proof -
  have a: "signature_rejection
     (parseAndValidateRemoteManifest demo_env (Json (catalog_with [(''signature'', JStr ''bad'')])))"
    unfolding parseAndValidate_signature [THEN conjunct1]
    by (simp add: catalog_valid fails_to_verify_def)
      (simp add: catalog_with_def demo_env_def REMOTE_MANIFEST_PUBLIC_KEY_PEM_def)
  have n: "get (catalog_with []) ''signature'' = None"
    by (simp add: catalog_with_def)
  have b: "parseAndValidateRemoteManifest demo_env (Json (catalog_with [])) = Inr (catalog_with [])"
    using parseAndValidate_signature
      [where e = demo_env and buffer = "Json (catalog_with [])" and parsed = "catalog_with []"]
      catalog_valid n by simp
  show ?thesis using a b n catalog_valid by (simp add: demo_env_def)
qed

text \<open>
  Claim C4 as stated fails: a catalog that carries the signature \<open>""\<close>, with a key
  configured and a signature that does not verify, is accepted.
\<close>

theorem parseAndValidate_blank_signature_counterexample:
  "parseAndValidateRemoteManifest demo_env (Json (catalog_with [(''signature'', JStr [])]))
     = Inr (catalog_with [(''signature'', JStr [])])
   \<and> get (catalog_with [(''signature'', JStr [])]) ''signature'' = Some (JStr [])
   \<and> PUBLIC_KEY_PEM demo_env = Some ''KEY''
   \<and> cryptoVerify demo_env (signed_payload (catalog_with [(''signature'', JStr [])]))
        (JStr ''KEY'') (JStr []) = Some False"
  by (simp add: parseAndValidateRemoteManifest_def catalog_with_def demo_env_def
      REMOTE_MANIFEST_PUBLIC_KEY_PEM_def)

subsection \<open>C3, C6, C10: the remote catalog and the release\<close>

lemma readRemoteManifestDiskCache_truthy:
  "readRemoteManifestDiskCache e w = Some d \<Longrightarrow> truthy (Some d)"
  by (cases d)
    (auto simp: readRemoteManifestDiskCache_def split: if_splits sum.splits option.splits)

lemma fetchRemoteManifest_fails:
  "fetch_fails e w \<Longrightarrow> \<exists>err. fetchRemoteManifest e w = (Inl err, w)"
  by (auto simp: fetch_fails_def fetchRemoteManifest_def split: sum.splits)

text \<open>
  Claim C3, as amended. When \<open>getRemoteManifest\<close> fetches and the fetch fails, no file
  changes, so the cache file on disk is as before, and nothing else changes but the memory
  cache, which becomes the cache read from disk when there is one and stays as it was
  otherwise.
\<close>

theorem getRemoteManifest_failed_fetch:
  "fetch_attempted e w \<and> fetch_fails e w \<longrightarrow>
     snd (getRemoteManifest e w) =
       w\<lparr>remoteManifestMemoryCache :=
           (case readRemoteManifestDiskCache e w of
              None \<Rightarrow> remoteManifestMemoryCache w
            | Some d \<Rightarrow> Some d)\<rparr>
     \<and> files (snd (getRemoteManifest e w)) = files w"
proof
  assume a: "fetch_attempted e w \<and> fetch_fails e w"
  then obtain err where f: "fetchRemoteManifest e w = (Inl err, w)"
    using fetchRemoteManifest_fails by blast
  have s: "snd (getRemoteManifest e w) =
       w\<lparr>remoteManifestMemoryCache :=
           (case readRemoteManifestDiskCache e w of
              None \<Rightarrow> remoteManifestMemoryCache w
            | Some d \<Rightarrow> Some d)\<rparr>"
  proof (cases "readRemoteManifestDiskCache e w")
    case None
    with a f show ?thesis
      by (simp add: getRemoteManifest_def fetch_attempted_def)
  next
    case (Some d)
    with a f readRemoteManifestDiskCache_truthy [OF Some] show ?thesis
      by (simp add: getRemoteManifest_def fetch_attempted_def)
  qed
  then show "snd (getRemoteManifest e w) =
       w\<lparr>remoteManifestMemoryCache :=
           (case readRemoteManifestDiskCache e w of
              None \<Rightarrow> remoteManifestMemoryCache w
            | Some d \<Rightarrow> Some d)\<rparr>
     \<and> files (snd (getRemoteManifest e w)) = files w"
    by simp
qed


lemma getRelease_eq:
  "getRelease e tool w =
     (case toValidToolRelease
             (remote_entry (fst (getRemoteManifest e w)) tool (getPlatformKey e)) of
        Some remoteRelease \<Rightarrow> (Inr remoteRelease, snd (getRemoteManifest e w))
      | None \<Rightarrow>
          (case BUILTIN_TOOL_RELEASES tool (getPlatformKey e) of
             None \<Rightarrow> (Inl (UnsupportedPlatform tool (platform e) (arch e)),
                       snd (getRemoteManifest e w))
           | Some release \<Rightarrow> (Inr release, snd (getRemoteManifest e w))))"
  by (cases "getRemoteManifest e w") (simp add: getRelease_def Let_def split: option.splits)

lemma toValidToolRelease_None: "toValidToolRelease None = None"
  by (simp add: toValidToolRelease_def)

text \<open>
  Claim C10. The built-in table has no release of ffmpeg for any platform key. So when the
  remote catalog is unavailable, has no ffmpeg entry for the platform key, or has one that
  is not a valid release, \<open>getRelease\<close> and \<open>ensureToolInstalled\<close> fail for ffmpeg with the
  unsupported-platform error.
\<close>

theorem ffmpeg_unsupported:
  "BUILTIN_TOOL_RELEASES Ffmpeg pk = None
   \<and> (fst (getRemoteManifest e w) = None
       \<or> remote_entry (fst (getRemoteManifest e w)) Ffmpeg (getPlatformKey e) = None
       \<or> toValidToolRelease (remote_entry (fst (getRemoteManifest e w)) Ffmpeg (getPlatformKey e))
            = None
      \<longrightarrow> fst (getRelease e Ffmpeg w) = Inl (UnsupportedPlatform Ffmpeg (platform e) (arch e))
          \<and> fst (ensureToolInstalled e Ffmpeg w)
              = Inl (UnsupportedPlatform Ffmpeg (platform e) (arch e)))"
proof (intro conjI impI)
  show "BUILTIN_TOOL_RELEASES Ffmpeg pk = None" by simp
next
  assume a: "fst (getRemoteManifest e w) = None
       \<or> remote_entry (fst (getRemoteManifest e w)) Ffmpeg (getPlatformKey e) = None
       \<or> toValidToolRelease (remote_entry (fst (getRemoteManifest e w)) Ffmpeg (getPlatformKey e))
            = None"
  then have n: "toValidToolRelease
      (remote_entry (fst (getRemoteManifest e w)) Ffmpeg (getPlatformKey e)) = None"
    by (auto simp: toValidToolRelease_None remote_entry_def)
  then show r: "fst (getRelease e Ffmpeg w) = Inl (UnsupportedPlatform Ffmpeg (platform e) (arch e))"
    by (simp add: getRelease_eq)
  then show "fst (ensureToolInstalled e Ffmpeg w)
      = Inl (UnsupportedPlatform Ffmpeg (platform e) (arch e))"
    by (cases "getRelease e Ffmpeg w") (simp add: ensureToolInstalled_def)
qed

lemma cache_of_truthy:
  "truthy (Some (cache_of t c))" "get_opt (Some (cache_of t c)) ''manifest'' = Some c"
  by (simp_all add: cache_of_def)

lemma stale_disk:
  "readRemoteManifestDiskCache demo_env (stale_world m (cache_of ''t0'' c)) =
     (if truthy (Some c) then Some (cache_of ''t0'' c) else None)"
  by (simp add: readRemoteManifestDiskCache_def stale_world_def demo_world_def cache_file_def
      exists_file_def readFile_def cache_of_def)

lemma stale_attempted:
  "fetch_attempted demo_env (stale_world None (cache_of ''t0'' c))"
  "fetch_attempted demo_env (stale_world (Some (cache_of ''t0'' c')) (cache_of ''t0'' c))"
  by (simp_all add: fetch_attempted_def stale_disk)
    (simp_all add: is_fresh_def stale_world_def demo_world_def cache_of_def demo_env_def
      demo_date_def REMOTE_MANIFEST_CACHE_TTL_MS_def)

lemma stale_fails: "fetch_fails demo_env (stale_world m d)"
  by (simp add: fetch_fails_def stale_world_def demo_world_def httpGetBuffer.simps)

theorem getRemoteManifest_failed_fetch_witness:
  "fetch_attempted demo_env (stale_world None (cache_of ''t0'' other_catalog))
   \<and> fetch_fails demo_env (stale_world None (cache_of ''t0'' other_catalog))
   \<and> files (snd (getRemoteManifest demo_env (stale_world None (cache_of ''t0'' other_catalog))))
       = cache_file demo_env (cache_of ''t0'' other_catalog)
   \<and> remoteManifestMemoryCache
        (snd (getRemoteManifest demo_env (stale_world None (cache_of ''t0'' other_catalog))))
       = Some (cache_of ''t0'' other_catalog)"
proof -
  have t: "truthy (Some other_catalog)"
    by (simp add: other_catalog_def catalog_with_def)
  show ?thesis
    using getRemoteManifest_failed_fetch
      [of demo_env "stale_world None (cache_of ''t0'' other_catalog)"]
      stale_attempted(1) [of other_catalog] stale_fails stale_disk [of None other_catalog] t
    by (simp add: stale_world_def)
qed

text \<open>
  Claim C3 as stated fails for the memory cache: after a failed fetch it holds the cache
  read from disk, which replaces a different stale catalog held before, and fills a field
  that was null.
\<close>

theorem getRemoteManifest_memory_counterexample:
  "fetch_attempted demo_env
     (stale_world (Some (cache_of ''t0'' (catalog_with []))) (cache_of ''t0'' other_catalog))
   \<and> fetch_fails demo_env
     (stale_world (Some (cache_of ''t0'' (catalog_with []))) (cache_of ''t0'' other_catalog))
   \<and> remoteManifestMemoryCache
        (stale_world (Some (cache_of ''t0'' (catalog_with []))) (cache_of ''t0'' other_catalog))
       = Some (cache_of ''t0'' (catalog_with []))
   \<and> remoteManifestMemoryCache
        (snd (getRemoteManifest demo_env
          (stale_world (Some (cache_of ''t0'' (catalog_with []))) (cache_of ''t0'' other_catalog))))
       = Some (cache_of ''t0'' other_catalog)
   \<and> cache_of ''t0'' other_catalog \<noteq> cache_of ''t0'' (catalog_with [])
   \<and> remoteManifestMemoryCache (stale_world None (cache_of ''t0'' other_catalog)) = None
   \<and> remoteManifestMemoryCache
        (snd (getRemoteManifest demo_env (stale_world None (cache_of ''t0'' other_catalog))))
       = Some (cache_of ''t0'' other_catalog)"
proof -
  have t: "truthy (Some other_catalog)"
    by (simp add: other_catalog_def catalog_with_def)
  have f: "fetchRemoteManifest demo_env (stale_world m d) = (Inl TransportError, stale_world m d)"
    for m d
    by (simp add: fetchRemoteManifest_def stale_world_def demo_world_def httpGetBuffer.simps)
  have a: "remoteManifestMemoryCache
        (snd (getRemoteManifest demo_env
          (stale_world (Some (cache_of ''t0'' (catalog_with []))) (cache_of ''t0'' other_catalog))))
       = Some (cache_of ''t0'' other_catalog)"
    using stale_attempted(2) [of "catalog_with []" other_catalog] t
    by (simp add: getRemoteManifest_def fetch_attempted_def stale_disk f Let_def cache_of_truthy)
  have b: "remoteManifestMemoryCache
        (snd (getRemoteManifest demo_env (stale_world None (cache_of ''t0'' other_catalog))))
       = Some (cache_of ''t0'' other_catalog)"
    using stale_attempted(1) [of other_catalog] t
    by (simp add: getRemoteManifest_def fetch_attempted_def stale_disk f Let_def cache_of_truthy)
  have c: "cache_of ''t0'' other_catalog \<noteq> cache_of ''t0'' (catalog_with [])"
    by (simp add: cache_of_def other_catalog_def catalog_with_def)
  show ?thesis
    using a b c stale_attempted stale_fails by (simp add: stale_world_def)
qed

lemma demo_no_catalog: "getRemoteManifest demo_env demo_world = (None, demo_world)"
  by (simp add: getRemoteManifest_def is_fresh_def readRemoteManifestDiskCache_def
      exists_file_def fetchRemoteManifest_def demo_world_def httpGetBuffer.simps)


theorem ffmpeg_unsupported_witness:
  "fst (getRemoteManifest demo_env demo_world) = None
   \<and> fst (getRelease demo_env Ffmpeg demo_world)
       = Inl (UnsupportedPlatform Ffmpeg ''linux'' ''x64'')
   \<and> fst (ensureToolInstalled demo_env Ffmpeg demo_world)
       = Inl (UnsupportedPlatform Ffmpeg ''linux'' ''x64'')"
proof -
  have n: "fst (getRemoteManifest demo_env demo_world) = None"
    by (simp add: demo_no_catalog)
  have p: "platform demo_env = ''linux''" "arch demo_env = ''x64''"
    by (simp_all add: demo_env_def)
  show ?thesis
    using ffmpeg_unsupported [where e = demo_env and w = demo_world] n p by simp
qed

subsection \<open>C8: parsing the output of the extraction\<close>









subsection \<open>C9: the progress shown is a high-water mark\<close>

lemma mergeProgress_retains:
  assumes "progress p0 = Some v0"
    and "progress inc \<noteq> None \<or> stage inc = ''download-audio''"
  shows "progress (mergeProgress (Some p0) inc) =
           Some (case progress inc of None \<Rightarrow> v0 | Some v \<Rightarrow> max v0 v)"
    and "stage (mergeProgress (Some p0) inc) = stage inc"
    and "message (mergeProgress (Some p0) inc) = message inc"
  using assms by (auto simp: mergeProgress_def Let_def max_def split: option.splits)

lemma Max_step:
  "Max (insert (max (v0::real) v) (set xs)) = max v0 (Max (insert v (set xs)))"
  by (cases "xs = []") (simp_all add: max.assoc)

lemma delivered_values_Cons:
  "delivered_values (ev # evs) =
     (case progress (snd ev) of None \<Rightarrow> delivered_values evs | Some v \<Rightarrow> v # delivered_values evs)"
  by (simp add: delivered_values_def List.map_filter_simps split: option.splits)

lemma handleProgress_same_request:
  "requestId st = Some rid \<Longrightarrow> rid \<noteq> [] \<Longrightarrow>
   handleProgress st (rid, inc) = st\<lparr>progressState := Some (mergeProgress (progressState st) inc)\<rparr>"
  by (simp add: handleProgress_def)

lemma high_water_general:
  "requestId st = Some rid \<Longrightarrow> rid \<noteq> [] \<Longrightarrow> progressState st = Some p0
   \<Longrightarrow> progress p0 = Some v0
   \<Longrightarrow> (\<forall>ev \<in> set evs. fst ev = rid
          \<and> (progress (snd ev) \<noteq> None \<or> stage (snd ev) = ''download-audio''))
   \<Longrightarrow> visible_progress (foldl handleProgress st evs) = Some (Max (set (v0 # delivered_values evs)))
     \<and> (evs \<noteq> [] \<longrightarrow>
          map_option stage (progressState (foldl handleProgress st evs)) = Some (stage (snd (last evs)))
          \<and> map_option message (progressState (foldl handleProgress st evs))
              = Some (message (snd (last evs))))"
proof (induction evs arbitrary: st p0 v0)
  case Nil
  then show ?case by (simp add: visible_progress_def delivered_values_def List.map_filter_simps)
next
  case (Cons ev evs)
  obtain r inc where ev: "ev = (r, inc)" by (cases ev)
  with Cons.prems have r: "r = rid"
    and ret: "progress inc \<noteq> None \<or> stage inc = ''download-audio''"
    by auto
  let ?p1 = "mergeProgress (Some p0) inc"
  let ?v1 = "case progress inc of None \<Rightarrow> v0 | Some v \<Rightarrow> max v0 v"
  let ?st1 = "handleProgress st ev"
  have st1: "?st1 = st\<lparr>progressState := Some ?p1\<rparr>"
    using Cons.prems(1,2,3) ev r by (simp add: handleProgress_same_request)
  have m: "progress ?p1 = Some ?v1" "stage ?p1 = stage inc" "message ?p1 = message inc"
    using mergeProgress_retains [OF Cons.prems(4) ret] by simp_all
  have ih: "visible_progress (foldl handleProgress ?st1 evs)
        = Some (Max (set (?v1 # delivered_values evs)))
     \<and> (evs \<noteq> [] \<longrightarrow>
          map_option stage (progressState (foldl handleProgress ?st1 evs))
            = Some (stage (snd (last evs)))
          \<and> map_option message (progressState (foldl handleProgress ?st1 evs))
              = Some (message (snd (last evs))))"
    using Cons.IH [of ?st1 ?p1 ?v1] Cons.prems(1,2,5) st1 m(1) by simp
  have mx: "Max (set (?v1 # delivered_values evs)) = Max (set (v0 # delivered_values (ev # evs)))"
    using ev by (cases "progress inc") (simp_all add: delivered_values_Cons Max_step)
  show ?case
  proof (cases "evs = []")
    case True
    then show ?thesis
      using ih mx st1 m ev by simp
  next
    case False
    then show ?thesis
      using ih mx by simp
  qed
qed

text \<open>
  Claim C9, as amended. For every non-empty request id that is the dialog's current one,
  starting from a state that shows a number: over any sequence of delivered events for
  that id in which each event carries a number or has the stage \<open>download-audio\<close>, the number
  shown is the greatest of the number shown at the start and the numbers delivered, while
  the stage and the message are those of the last event. After 40 and then 30 the dialog
  shows 40.
\<close>

theorem progress_high_water_mark:
  "requestId st = Some rid \<and> rid \<noteq> [] \<and> progressState st = Some p0 \<and> progress p0 = Some v0
   \<and> (\<forall>ev \<in> set evs. fst ev = rid
          \<and> (progress (snd ev) \<noteq> None \<or> stage (snd ev) = ''download-audio''))
   \<longrightarrow> visible_progress (foldl handleProgress st evs) = Some (Max (set (v0 # delivered_values evs)))
     \<and> (evs \<noteq> [] \<longrightarrow>
          map_option stage (progressState (foldl handleProgress st evs)) = Some (stage (snd (last evs)))
          \<and> map_option message (progressState (foldl handleProgress st evs))
              = Some (message (snd (last evs))))"
  using high_water_general [of st rid p0 v0 evs] by blast

theorem progress_high_water_mark_witness:
  "visible_progress
     (foldl handleProgress (handleSubmit ''req-1'' closed_dialog)
        [event ''req-1'' ''download-audio'' (Some 40), event ''req-1'' ''finalize'' (Some 30)])
     = Some 40
   \<and> map_option stage (progressState
        (foldl handleProgress (handleSubmit ''req-1'' closed_dialog)
          [event ''req-1'' ''download-audio'' (Some 40), event ''req-1'' ''finalize'' (Some 30)]))
     = Some ''finalize''"
proof -
  let ?p0 = "\<lparr>stage = ''prepare'', message = ''Preparing import pipeline...'',
              progress = Some (5::real)\<rparr>"
  have s: "handleSubmit ''req-1'' closed_dialog
      = \<lparr>requestId = Some ''req-1'', progressState = Some ?p0\<rparr>"
    by (simp add: handleSubmit_def closed_dialog_def)
  have d: "delivered_values
      [event ''req-1'' ''download-audio'' (Some 40), event ''req-1'' ''finalize'' (Some 30)]
      = [40, 30]"
    by (simp add: delivered_values_def event_def List.map_filter_simps)
  show ?thesis
    using progress_high_water_mark
      [where st = "handleSubmit ''req-1'' closed_dialog" and rid = "''req-1''" and ?p0.0 = ?p0
        and ?v0.0 = 5
        and evs = "[event ''req-1'' ''download-audio'' (Some 40),
                    event ''req-1'' ''finalize'' (Some 30)]"]
    by (simp add: s d) (simp add: event_def)
qed

text \<open>
  Claim C9 as stated fails: an event without a number whose stage is not
  \<open>download-audio\<close> clears the number shown, and a later event for the same request then
  shows 10 although 40 was delivered before.
\<close>

theorem progress_regression_counterexample:
  "visible_progress
     (foldl handleProgress (handleSubmit ''req-1'' closed_dialog)
        [event ''req-1'' ''download-audio'' (Some 40), event ''req-1'' ''finalize'' None])
     = None
   \<and> visible_progress
     (foldl handleProgress (handleSubmit ''req-1'' closed_dialog)
        [event ''req-1'' ''download-audio'' (Some 40), event ''req-1'' ''finalize'' None,
         event ''req-1'' ''finalize'' (Some 10)])
     = Some 10"
  by (simp add: visible_progress_def handleProgress_def mergeProgress_def handleSubmit_def
      closed_dialog_def event_def)

subsection \<open>C2, C5: installing and verifying a tool\<close>

lemmas path_defs = path_join_def baseDir_def binDir_def tempDir_def manifestPath_def
  remoteManifestCachePath_def tempPath_of_def

lemma binary_path_distinct:
  "path_join (binDir e) n \<noteq> remoteManifestCachePath e"
  "path_join (binDir e) n \<noteq> remoteManifestCachePath e @ ''.tmp''"
  "path_join (binDir e) n \<noteq> manifestPath e"
  "path_join (binDir e) n \<noteq> manifestPath e @ ''.tmp''"
  "path_join (binDir e) n \<noteq> tempPath_of e r w"
  by (simp_all add: path_defs)

lemma manifest_path_distinct:
  "manifestPath e \<noteq> remoteManifestCachePath e"
  "manifestPath e \<noteq> remoteManifestCachePath e @ ''.tmp''"
  "manifestPath e \<noteq> manifestPath e @ ''.tmp''"
  "manifestPath e \<noteq> tempPath_of e r w"
  "manifestPath e @ ''.tmp'' \<noteq> tempPath_of e r w"
  by (simp_all add: path_defs)

lemma temp_path_distinct:
  "tempPath_of e r w \<noteq> path_join (binDir e) n"
  "tempPath_of e r w \<noteq> manifestPath e"
  "tempPath_of e r w \<noteq> manifestPath e @ ''.tmp''"
  by (simp_all add: path_defs)

lemma writeFile_simps [simp]:
  "files (writeFile p c w) q =
     (if q = p then Some (File c (case files w p of None \<Rightarrow> 420 | Some f \<Rightarrow> mode f)) else files w q)"
  "downloads (writeFile p c w) = downloads w"
  "now (writeFile p c w) = now w"
  "net (writeFile p c w) = net w"
  "run (writeFile p c w) = run w"
  "remoteManifestMemoryCache (writeFile p c w) = remoteManifestMemoryCache w"
  by (simp_all add: writeFile_def)

lemma rm_force_simps [simp]:
  "files (rm_force p w) q = (if q = p then None else files w q)"
  "downloads (rm_force p w) = downloads w"
  by (simp_all add: rm_force_def)

lemma rename_written:
  "a \<noteq> b \<Longrightarrow> rename a b (writeFile a c w) =
     Inr ((writeFile a c w)\<lparr>files := (files (writeFile a c w))(a := None,
       b \<mapsto> File c (case files w a of None \<Rightarrow> 420 | Some f \<Rightarrow> mode f))\<rparr>)"
  by (simp add: rename_def)

lemma writeRemoteManifestDiskCache_eq:
  "writeRemoteManifestDiskCache e c w =
     (Inr (), (writeFile (remoteManifestCachePath e @ ''.tmp'') (Json c) w)
        \<lparr>files := (files (writeFile (remoteManifestCachePath e @ ''.tmp'') (Json c) w))
           (remoteManifestCachePath e @ ''.tmp'' := None,
            remoteManifestCachePath e \<mapsto>
              File (Json c) (case files w (remoteManifestCachePath e @ ''.tmp'') of
                               None \<Rightarrow> 420 | Some f \<Rightarrow> mode f))\<rparr>)"
  by (simp add: writeRemoteManifestDiskCache_def Let_def rename_written)

lemma writeRemoteManifestDiskCache_frame:
  "p \<noteq> remoteManifestCachePath e \<Longrightarrow> p \<noteq> remoteManifestCachePath e @ ''.tmp''
     \<Longrightarrow> files (snd (writeRemoteManifestDiskCache e c w)) p = files w p"
  "downloads (snd (writeRemoteManifestDiskCache e c w)) = downloads w"
  "now (snd (writeRemoteManifestDiskCache e c w)) = now w"
  "net (snd (writeRemoteManifestDiskCache e c w)) = net w"
  "run (snd (writeRemoteManifestDiskCache e c w)) = run w"
  by (simp_all add: writeRemoteManifestDiskCache_eq)

lemma fetchRemoteManifest_snd:
  "snd (fetchRemoteManifest e w) = w
   \<or> (\<exists>c. snd (fetchRemoteManifest e w) =
        snd (writeRemoteManifestDiskCache e c (w\<lparr>remoteManifestMemoryCache := Some c\<rparr>)))"
  by (simp add: fetchRemoteManifest_def Let_def writeRemoteManifestDiskCache_eq
      split: sum.splits) blast

lemma fetchRemoteManifest_frame:
  "p \<noteq> remoteManifestCachePath e \<Longrightarrow> p \<noteq> remoteManifestCachePath e @ ''.tmp''
     \<Longrightarrow> files (snd (fetchRemoteManifest e w)) p = files w p"
  "downloads (snd (fetchRemoteManifest e w)) = downloads w"
  "now (snd (fetchRemoteManifest e w)) = now w"
  "net (snd (fetchRemoteManifest e w)) = net w"
  "run (snd (fetchRemoteManifest e w)) = run w"
  using fetchRemoteManifest_snd [of e w]
  by (auto simp: writeRemoteManifestDiskCache_frame)

lemma getRemoteManifest_snd:
  "snd (getRemoteManifest e w) = w
   \<or> (\<exists>m. snd (getRemoteManifest e w) = w\<lparr>remoteManifestMemoryCache := m\<rparr>)
   \<or> snd (getRemoteManifest e w) = snd (fetchRemoteManifest e w)
   \<or> (\<exists>m. snd (getRemoteManifest e w)
         = (snd (fetchRemoteManifest e w))\<lparr>remoteManifestMemoryCache := m\<rparr>)"
proof (cases "fetchRemoteManifest e w")
  case (Pair r w')
  then show ?thesis
    by (cases r) (simp_all add: getRemoteManifest_def Let_def, blast+)
qed

lemma getRemoteManifest_frame:
  "p \<noteq> remoteManifestCachePath e \<Longrightarrow> p \<noteq> remoteManifestCachePath e @ ''.tmp''
     \<Longrightarrow> files (snd (getRemoteManifest e w)) p = files w p"
  "downloads (snd (getRemoteManifest e w)) = downloads w"
  "now (snd (getRemoteManifest e w)) = now w"
  "net (snd (getRemoteManifest e w)) = net w"
  "run (snd (getRemoteManifest e w)) = run w"
  using getRemoteManifest_snd [of e w]
  by (auto simp: fetchRemoteManifest_frame)

lemma getRelease_snd: "snd (getRelease e tool w) = snd (getRemoteManifest e w)"
  by (simp add: getRelease_eq split: option.splits)

lemma readManifest_cong:
  "files a (manifestPath e) = files b (manifestPath e) \<Longrightarrow> readManifest e a = readManifest e b"
  by (simp add: readManifest_def exists_file_def readFile_def)

lemma writeManifest_eq:
  "writeManifest e m w =
     (Inr (), (writeFile (manifestPath e @ ''.tmp'') (Json (JObj [(''tools'', tools m)])) w)
        \<lparr>files := (files (writeFile (manifestPath e @ ''.tmp'')
                       (Json (JObj [(''tools'', tools m)])) w))
           (manifestPath e @ ''.tmp'' := None,
            manifestPath e \<mapsto>
              File (Json (JObj [(''tools'', tools m)]))
                (case files w (manifestPath e @ ''.tmp'') of None \<Rightarrow> 420 | Some f \<Rightarrow> mode f))\<rparr>)"
  by (simp add: writeManifest_def Let_def rename_written)

lemma writeManifest_frame:
  "p \<noteq> manifestPath e \<Longrightarrow> p \<noteq> manifestPath e @ ''.tmp''
     \<Longrightarrow> files (snd (writeManifest e m w)) p = files w p"
  "files (snd (writeManifest e m w)) (manifestPath e)
     = Some (File (Json (JObj [(''tools'', tools m)]))
         (case files w (manifestPath e @ ''.tmp'') of None \<Rightarrow> 420 | Some f \<Rightarrow> mode f))"
  "downloads (snd (writeManifest e m w)) = downloads w"
  "now (snd (writeManifest e m w)) = now w"
  "fst (writeManifest e m w) = Inr ()"
  "net (snd (writeManifest e m w)) = net w"
  "remoteManifestMemoryCache (snd (writeManifest e m w)) = remoteManifestMemoryCache w"
  by (simp_all add: writeManifest_eq)

lemma chmod_eq:
  "chmod p m w = (case files w p of None \<Rightarrow> Inl (ENOENT p)
                  | Some f \<Rightarrow> Inr (w\<lparr>files := (files w)(p \<mapsto> File (bytes f) m)\<rparr>))"
  by (simp add: chmod_def)

lemma verifyExistingInstall_downloads:
  "verifyExistingInstall e tool release bp m w = Some outcome
   \<Longrightarrow> downloads (snd outcome) = downloads w"
  by (auto simp: verifyExistingInstall_def Let_def chmod_eq writeManifest_eq
      split: if_splits sum.splits option.splits)

lemma getRelease_Inr:
  "fst (getRelease e tool w) = Inr release
   \<Longrightarrow> getRelease e tool w = (Inr release, snd (getRemoteManifest e w))"
  using getRelease_snd [of e tool w] by (cases "getRelease e tool w") simp

text \<open>
  Claim C2. In a call of \<open>ensureToolInstalled\<close> that resolves a release and downloads: when
  the download succeeds with bytes whose digest is not the release's, the call fails with
  the checksum-mismatch error, no file is left at the temporary path, and the binary path
  and the local manifest hold what they held before the call.
\<close>

theorem checksum_mismatch_never_commits:
  "fst (getRelease e tool w) = Inr release
   \<and> downloads (snd (ensureToolInstalled e tool w)) \<noteq> downloads w
   \<and> httpGetBuffer (net w) (r_url release) 0 = Inr body
   \<and> hash_hex e body \<noteq> r_sha256 release
   \<longrightarrow> fst (ensureToolInstalled e tool w) = Inl (ChecksumMismatch tool)
     \<and> files (snd (ensureToolInstalled e tool w)) (tempPath_of e release w) = None
     \<and> files (snd (ensureToolInstalled e tool w)) (path_join (binDir e) (r_binaryName release))
         = files w (path_join (binDir e) (r_binaryName release))
     \<and> files (snd (ensureToolInstalled e tool w)) (manifestPath e) = files w (manifestPath e)"
proof
  assume a: "fst (getRelease e tool w) = Inr release
   \<and> downloads (snd (ensureToolInstalled e tool w)) \<noteq> downloads w
   \<and> httpGetBuffer (net w) (r_url release) 0 = Inr body
   \<and> hash_hex e body \<noteq> r_sha256 release"
  let ?w1 = "snd (getRemoteManifest e w)"
  let ?bp = "path_join (binDir e) (r_binaryName release)"
  let ?tp = "tempPath_of e release ?w1"
  let ?m = "readManifest e ?w1"
  have rel: "getRelease e tool w = (Inr release, ?w1)"
    using a getRelease_Inr by blast
  have tp: "tempPath_of e release w = ?tp"
    by (simp add: tempPath_of_def getRemoteManifest_frame)
  have ens: "ensureToolInstalled e tool w =
      (case verifyExistingInstall e tool release ?bp ?m ?w1 of
         Some outcome \<Rightarrow> outcome
       | None \<Rightarrow>
           (case downloadAndInstall e tool release ?bp ?tp ?m ?w1 of
              (Inl err, w2) \<Rightarrow> (Inl err, rm_force ?tp w2)
            | (Inr p, w2) \<Rightarrow> (Inr p, w2)))"
    unfolding ensureToolInstalled_def Let_def rel by simp
  have none: "verifyExistingInstall e tool release ?bp ?m ?w1 = None"
  proof (cases "verifyExistingInstall e tool release ?bp ?m ?w1")
    case None
    then show ?thesis .
  next
    case (Some outcome)
    then have "downloads (snd (ensureToolInstalled e tool w)) = downloads w"
      using verifyExistingInstall_downloads [OF Some] ens
      by (simp add: getRemoteManifest_frame)
    with a show ?thesis by simp
  qed
  let ?w2 = "writeFile ?tp body (?w1\<lparr>downloads := (r_url release, ?tp) # downloads ?w1\<rparr>)"
  have dl: "downloadToFile (r_url release) ?tp ?w1 = (Inr (), ?w2)"
    using a by (simp add: downloadToFile_def Let_def getRemoteManifest_frame)
  have ver: "verifyReleaseIntegrity e tool ?tp release ?w2 = Inl (ChecksumMismatch tool)"
    using a by (simp add: verifyReleaseIntegrity_def sha256_def)
  have dai: "downloadAndInstall e tool release ?bp ?tp ?m ?w1 = (Inl (ChecksumMismatch tool), ?w2)"
    by (simp add: downloadAndInstall_def dl ver)
  have res: "ensureToolInstalled e tool w = (Inl (ChecksumMismatch tool), rm_force ?tp ?w2)"
    by (simp add: ens none dai)
  show "fst (ensureToolInstalled e tool w) = Inl (ChecksumMismatch tool)
     \<and> files (snd (ensureToolInstalled e tool w)) (tempPath_of e release w) = None
     \<and> files (snd (ensureToolInstalled e tool w)) (path_join (binDir e) (r_binaryName release))
         = files w (path_join (binDir e) (r_binaryName release))
     \<and> files (snd (ensureToolInstalled e tool w)) (manifestPath e) = files w (manifestPath e)"
    by (simp add: res tp binary_path_distinct manifest_path_distinct getRemoteManifest_frame)
qed

lemma get_Some_obj: "get t k = Some v \<Longrightarrow> \<exists>kvs. t = JObj kvs"
  by (cases t) simp_all

lemma get_opt_Some_obj: "get_opt entry k = Some v \<Longrightarrow> \<exists>kvs. entry = Some (JObj kvs)"
  by (cases entry) (auto dest: get_Some_obj)

lemma readManifest_written:
  "files w (manifestPath e) = Some (File (Json (JObj [(''tools'', JObj kvs)])) md)
   \<Longrightarrow> readManifest e w = \<lparr>tools = JObj kvs\<rparr>"
  by (simp add: readManifest_def exists_file_def readFile_def)

lemma installed_ok_cong:
  "files a (manifestPath e) = files b (manifestPath e)
   \<Longrightarrow> files a (path_join (binDir e) (r_binaryName release))
       = files b (path_join (binDir e) (r_binaryName release))
   \<Longrightarrow> installed_ok e tool release a = installed_ok e tool release b"
  by (simp add: installed_ok_def validExistingInstall_def exists_file_def sha256_def
      readManifest_cong [of a e b])

lemma installed_ok_D:
  assumes "installed_ok e tool release w"
  shows "\<exists>tkvs kvs f. tools (readManifest e w) = JObj tkvs
     \<and> get (JObj tkvs) (tool_name tool) = Some (JObj kvs)
     \<and> get (JObj kvs) ''binaryPath'' = Some (JStr (path_join (binDir e) (r_binaryName release)))
     \<and> get (JObj kvs) ''version'' = Some (JStr (r_version release))
     \<and> get (JObj kvs) ''sha256'' = Some (JStr (r_sha256 release))
     \<and> files w (path_join (binDir e) (r_binaryName release)) = Some f
     \<and> hash_hex e (bytes f) = r_sha256 release"
proof -
  let ?bp = "path_join (binDir e) (r_binaryName release)"
  let ?entry = "get (tools (readManifest e w)) (tool_name tool)"
  from assms have v: "get_opt ?entry ''binaryPath'' = Some (JStr ?bp)"
    "get_opt ?entry ''version'' = Some (JStr (r_version release))"
    "get_opt ?entry ''sha256'' = Some (JStr (r_sha256 release))"
    and s: "sha256 e w ?bp = Inr (r_sha256 release)"
    by (simp_all add: installed_ok_def validExistingInstall_def)
  from v(1) obtain kvs where kvs: "?entry = Some (JObj kvs)"
    using get_opt_Some_obj by blast
  then obtain tkvs where tkvs: "tools (readManifest e w) = JObj tkvs"
    using get_Some_obj by blast
  from s obtain f where f: "files w ?bp = Some f" "hash_hex e (bytes f) = r_sha256 release"
    by (auto simp: sha256_def split: option.splits)
  show ?thesis
    using v kvs tkvs f by auto
qed

lemma verifyExistingInstall_ok:
  assumes "tools m = JObj tkvs"
    and "get (JObj tkvs) (tool_name tool) = Some (JObj kvs)"
    and "get (JObj kvs) ''binaryPath'' = Some (JStr bp)"
    and "get (JObj kvs) ''version'' = Some (JStr (r_version release))"
    and "get (JObj kvs) ''sha256'' = Some (JStr (r_sha256 release))"
    and "files w bp = Some f"
    and "hash_hex e (bytes f) = r_sha256 release"
  shows "verifyExistingInstall e tool release bp m w =
     Some (Inr bp,
       snd (writeManifest e
         \<lparr>tools = JObj (AList.update (tool_name tool)
            (JObj (AList.update ''lastVerifiedAt'' (JStr (toISOString e (now w))) kvs)) tkvs)\<rparr>
         (w\<lparr>files := (files w)(bp \<mapsto> File (bytes f) 493)\<rparr>)))"
  using assms
  by (simp add: verifyExistingInstall_def Let_def validExistingInstall_def exists_file_def
      sha256_def chmod_eq writeManifest_eq)

lemma verifyExistingInstall_Some_D:
  "verifyExistingInstall e tool release bp m w = Some (Inr p, w')
   \<Longrightarrow> validExistingInstall release bp (get (tools m) (tool_name tool)) w
     \<and> sha256 e w bp = Inr (r_sha256 release)"
  by (simp add: verifyExistingInstall_def Let_def split: if_splits sum.splits)

lemma installed_ok_after_write:
  assumes t: "get (JObj tkvs') (tool_name tool) = Some (JObj kvs')"
    and k: "get (JObj kvs') ''binaryPath'' = Some (JStr (path_join (binDir e) (r_binaryName release)))"
      "get (JObj kvs') ''version'' = Some (JStr (r_version release))"
      "get (JObj kvs') ''sha256'' = Some (JStr (r_sha256 release))"
    and f: "files w (path_join (binDir e) (r_binaryName release)) = Some f"
      "hash_hex e (bytes f) = r_sha256 release"
  shows "installed_ok e tool release (snd (writeManifest e \<lparr>tools = JObj tkvs'\<rparr> w))"
proof -
  let ?w' = "snd (writeManifest e \<lparr>tools = JObj tkvs'\<rparr> w)"
  let ?bp = "path_join (binDir e) (r_binaryName release)"
  have r: "readManifest e ?w' = \<lparr>tools = JObj tkvs'\<rparr>"
    by (rule readManifest_written) (simp add: writeManifest_frame)
  have b: "files ?w' ?bp = Some f"
    using f by (simp add: writeManifest_frame binary_path_distinct)
  show ?thesis
    using t k f(2) by (simp add: installed_ok_def validExistingInstall_def r b exists_file_def
        sha256_def del: get.simps)
qed

lemma verified_branch_post:
  assumes v: "verifyExistingInstall e tool release (path_join (binDir e) (r_binaryName release))
      (readManifest e w) w = Some (Inr p, w')"
  shows "p = path_join (binDir e) (r_binaryName release) \<and> installed_ok e tool release w'"
proof -
  let ?bp = "path_join (binDir e) (r_binaryName release)"
  from verifyExistingInstall_Some_D [OF v] have "installed_ok e tool release w"
    by (simp add: installed_ok_def)
  from installed_ok_D [OF this] obtain tkvs kvs f where
    d: "tools (readManifest e w) = JObj tkvs"
      "get (JObj tkvs) (tool_name tool) = Some (JObj kvs)"
      "get (JObj kvs) ''binaryPath'' = Some (JStr ?bp)"
      "get (JObj kvs) ''version'' = Some (JStr (r_version release))"
      "get (JObj kvs) ''sha256'' = Some (JStr (r_sha256 release))"
      "files w ?bp = Some f"
      "hash_hex e (bytes f) = r_sha256 release"
    by blast
  let ?kvs' = "AList.update ''lastVerifiedAt'' (JStr (toISOString e (now w))) kvs"
  let ?tkvs' = "AList.update (tool_name tool) (JObj ?kvs') tkvs"
  let ?wc = "w\<lparr>files := (files w)(?bp \<mapsto> File (bytes f) 493)\<rparr>"
  have "verifyExistingInstall e tool release ?bp (readManifest e w) w =
      Some (Inr ?bp, snd (writeManifest e \<lparr>tools = JObj ?tkvs'\<rparr> ?wc))"
    by (rule verifyExistingInstall_ok [OF d])
  from this [unfolded v] have eq: "Some (Inr p :: error + string, w') =
      Some (Inr ?bp, snd (writeManifest e \<lparr>tools = JObj ?tkvs'\<rparr> ?wc))" .
  have p: "p = ?bp" using eq by blast
  have w': "w' = snd (writeManifest e \<lparr>tools = JObj ?tkvs'\<rparr> ?wc)" using eq by blast
  have "installed_ok e tool release (snd (writeManifest e \<lparr>tools = JObj ?tkvs'\<rparr> ?wc))"
  proof (rule installed_ok_after_write)
    show "get (JObj ?tkvs') (tool_name tool) = Some (JObj ?kvs')" by (simp add: update_conv')
    show "get (JObj ?kvs') ''binaryPath'' = Some (JStr ?bp)" using d(3) by (simp add: update_conv')
    show "get (JObj ?kvs') ''version'' = Some (JStr (r_version release))"
      using d(4) by (simp add: update_conv')
    show "get (JObj ?kvs') ''sha256'' = Some (JStr (r_sha256 release))"
      using d(5) by (simp add: update_conv')
    show "files ?wc ?bp = Some (File (bytes f) 493)" by simp
    show "hash_hex e (bytes (File (bytes f) 493)) = r_sha256 release" using d(7) by simp
  qed
  with p w' show ?thesis by simp
qed

lemma writeManifest_case:
  "(case writeManifest e m w of (Inl err, w4) \<Rightarrow> (Inl err, w4) | (Inr u, w4) \<Rightarrow> (Inr p, w4))
     = (Inr p, snd (writeManifest e m w))"
  by (simp add: writeManifest_eq)

lemma set_prop_Inr:
  "set_prop t k v = Inr t' \<Longrightarrow> (\<nexists>xs. t = JArr xs)
   \<Longrightarrow> \<exists>tkvs. t = JObj tkvs \<and> t' = JObj (AList.update k v tkvs)"
  by (cases t) auto

lemma download_branch_post:
  assumes d: "downloadAndInstall e tool release (path_join (binDir e) (r_binaryName release))
      (tempPath_of e release w) m w = (Inr p, w')"
    and typed: "\<nexists>xs. tools m = JArr xs"
  shows "p = path_join (binDir e) (r_binaryName release) \<and> installed_ok e tool release w'"
proof -
  let ?bp = "path_join (binDir e) (r_binaryName release)"
  let ?tp = "tempPath_of e release w"
  let ?w0 = "w\<lparr>downloads := (r_url release, ?tp) # downloads w\<rparr>"
  obtain body where body: "httpGetBuffer (net w) (r_url release) 0 = Inr body"
    using d by (cases "httpGetBuffer (net w) (r_url release) 0")
      (simp_all add: downloadAndInstall_def downloadToFile_def Let_def)
  let ?w2 = "writeFile ?tp body ?w0"
  have dl: "downloadToFile (r_url release) ?tp w = (Inr (), ?w2)"
    using body by (simp add: downloadToFile_def Let_def)
  have ver: "verifyReleaseIntegrity e tool ?tp release ?w2 = Inr ()"
    using d by (cases "verifyReleaseIntegrity e tool ?tp release ?w2")
      (simp_all add: downloadAndInstall_def dl)
  then have hash: "hash_hex e body = r_sha256 release"
    by (simp add: verifyReleaseIntegrity_def sha256_def split: if_splits)
  let ?md = "case files ?w0 ?tp of None \<Rightarrow> 420 | Some f \<Rightarrow> mode f"
  let ?w3 = "?w2\<lparr>files := (files ?w2)(?tp \<mapsto> File body 493)\<rparr>"
  have ch: "chmod ?tp 493 ?w2 = Inr ?w3"
    by (simp add: chmod_eq)
  let ?w4 = "?w3\<lparr>files := (files ?w3)(?tp := None, ?bp \<mapsto> File body 493)\<rparr>"
  have rn: "rename ?tp ?bp ?w3 = Inr ?w4"
    by (simp add: rename_def temp_path_distinct)
  let ?entry = "installed_entry e release ?bp ?w4"
  obtain t where t: "set_prop (tools m) (tool_name tool) ?entry = Inr t"
    using d by (cases "set_prop (tools m) (tool_name tool) ?entry")
      (simp_all add: downloadAndInstall_def dl ver ch rn)
  from set_prop_Inr [OF t typed] obtain tkvs where tk: "tools m = JObj tkvs"
    "t = JObj (AList.update (tool_name tool) ?entry tkvs)"
    by blast
  have res: "downloadAndInstall e tool release ?bp ?tp m w =
      (Inr ?bp, snd (writeManifest e \<lparr>tools = t\<rparr> ?w4))"
    unfolding downloadAndInstall_def dl prod.case sum.case ver ch rn t writeManifest_case
    by (rule refl)
  from res [unfolded d]
  have eq: "(Inr p :: error + string, w')
      = (Inr ?bp, snd (writeManifest e \<lparr>tools = t\<rparr> ?w4))" .
  have p: "p = ?bp" using eq by blast
  have w': "w' = snd (writeManifest e \<lparr>tools = t\<rparr> ?w4)" using eq by blast
  have "installed_ok e tool release
      (snd (writeManifest e \<lparr>tools = JObj (AList.update (tool_name tool) ?entry tkvs)\<rparr> ?w4))"
  proof (rule installed_ok_after_write [where kvs' = "[(''version'', JStr (r_version release)),
           (''sha256'', JStr (r_sha256 release)),
           (''binaryPath'', JStr ?bp),
           (''sourceUrl'', JStr (r_url release)),
           (''installedAt'', JStr (toISOString e (now ?w4))),
           (''lastVerifiedAt'', JStr (toISOString e (now ?w4)))]" and f = "File body 493"])
    show "get (JObj (AList.update (tool_name tool) ?entry tkvs)) (tool_name tool) =
        Some (JObj [(''version'', JStr (r_version release)),
           (''sha256'', JStr (r_sha256 release)),
           (''binaryPath'', JStr ?bp),
           (''sourceUrl'', JStr (r_url release)),
           (''installedAt'', JStr (toISOString e (now ?w4))),
           (''lastVerifiedAt'', JStr (toISOString e (now ?w4)))])"
      by (simp add: update_conv' installed_entry_def)
    show "files ?w4 ?bp = Some (File body 493)" by simp
    show "hash_hex e (bytes (File body 493)) = r_sha256 release" using hash by simp
  qed simp_all
  with p w' tk show ?thesis by simp
qed

lemma ensureToolInstalled_post:
  assumes ok: "ensureToolInstalled e tool w = (Inr p, w')"
    and rel: "fst (getRelease e tool w) = Inr release"
    and typed: "\<nexists>xs. tools (readManifest e w) = JArr xs"
  shows "p = path_join (binDir e) (r_binaryName release) \<and> installed_ok e tool release w'"
proof -
  let ?w1 = "snd (getRemoteManifest e w)"
  let ?bp = "path_join (binDir e) (r_binaryName release)"
  let ?tp = "tempPath_of e release ?w1"
  let ?m = "readManifest e ?w1"
  have r: "getRelease e tool w = (Inr release, ?w1)"
    using rel getRelease_Inr by blast
  have m: "?m = readManifest e w"
    by (rule readManifest_cong) (simp add: getRemoteManifest_frame manifest_path_distinct)
  have ens: "ensureToolInstalled e tool w =
      (case verifyExistingInstall e tool release ?bp ?m ?w1 of
         Some outcome \<Rightarrow> outcome
       | None \<Rightarrow>
           (case downloadAndInstall e tool release ?bp ?tp ?m ?w1 of
              (Inl err, w2) \<Rightarrow> (Inl err, rm_force ?tp w2)
            | (Inr p, w2) \<Rightarrow> (Inr p, w2)))"
    unfolding ensureToolInstalled_def Let_def r by simp
  show ?thesis
  proof (cases "verifyExistingInstall e tool release ?bp ?m ?w1")
    case (Some outcome)
    with ens ok have "verifyExistingInstall e tool release ?bp ?m ?w1 = Some (Inr p, w')"
      by simp
    then show ?thesis by (rule verified_branch_post)
  next
    case None
    obtain r2 w2 where dai: "downloadAndInstall e tool release ?bp ?tp ?m ?w1 = (r2, w2)"
      by (cases "downloadAndInstall e tool release ?bp ?tp ?m ?w1")
    with ens ok None have "downloadAndInstall e tool release ?bp ?tp ?m ?w1 = (Inr p, w')"
      by (cases r2) simp_all
    then show ?thesis
      using typed m by (intro download_branch_post) simp_all
  qed
qed

lemma download_branch_array:
  assumes d: "downloadAndInstall e tool release bp tp m w = (Inr p, w')"
    and arr: "tools m = JArr xs"
  shows "tools (readManifest e w') = JArr xs"
proof -
  obtain r1 w1 where dl: "downloadToFile (r_url release) tp w = (r1, w1)"
    by (cases "downloadToFile (r_url release) tp w")
  from d dl obtain w2 w3 where
    w': "writeManifest e \<lparr>tools = JArr xs\<rparr> w3 = (Inr (), w')"
    by (auto simp: downloadAndInstall_def arr split: sum.splits prod.splits)
  then have "w' = snd (writeManifest e \<lparr>tools = JArr xs\<rparr> w3)"
    by simp
  then show ?thesis
    by (simp add: writeManifest_eq readManifest_def exists_file_def readFile_def)
qed

lemma ensureToolInstalled_array:
  assumes ok: "ensureToolInstalled e tool w = (Inr p, w')"
    and rel: "fst (getRelease e tool w) = Inr release"
    and arr: "tools (readManifest e w) = JArr xs"
  shows "tools (readManifest e w') = JArr xs"
proof -
  let ?w1 = "snd (getRemoteManifest e w)"
  let ?bp = "path_join (binDir e) (r_binaryName release)"
  let ?tp = "tempPath_of e release ?w1"
  let ?m = "readManifest e ?w1"
  have r: "getRelease e tool w = (Inr release, ?w1)"
    using rel getRelease_Inr by blast
  have m: "?m = readManifest e w"
    by (rule readManifest_cong) (simp add: getRemoteManifest_frame manifest_path_distinct)
  have v: "verifyExistingInstall e tool release ?bp ?m ?w1 = None"
    by (simp add: verifyExistingInstall_def validExistingInstall_def m arr)
  have ens: "ensureToolInstalled e tool w =
      (case downloadAndInstall e tool release ?bp ?tp ?m ?w1 of
              (Inl err, w2) \<Rightarrow> (Inl err, rm_force ?tp w2)
            | (Inr p, w2) \<Rightarrow> (Inr p, w2))"
    unfolding ensureToolInstalled_def Let_def r prod.case sum.case v option.case
    by (rule refl)
  obtain r2 w2 where dai: "downloadAndInstall e tool release ?bp ?tp ?m ?w1 = (r2, w2)"
    by (cases "downloadAndInstall e tool release ?bp ?tp ?m ?w1")
  with ens ok have "downloadAndInstall e tool release ?bp ?tp ?m ?w1 = (Inr p, w')"
    by (cases r2) simp_all
  then show ?thesis
    by (rule download_branch_array) (simp add: m arr)
qed

text \<open>
  Claim C5. Let a call of \<open>ensureToolInstalled\<close> succeed with path \<open>p\<close>. In any later world
  that has the same manifest file, where the same release is resolved and the file at \<open>p\<close>
  still has the digest that the manifest records for the tool, a second call returns \<open>p\<close>,
  makes no download, leaves the bytes of the binary as they are, and changes nothing in
  the manifest but the tool's \<open>lastVerifiedAt\<close>, which becomes the time of the second call.
\<close>

theorem second_call_only_verifies:
  "ensureToolInstalled e tool w0 = (Inr p, w1)
   \<and> fst (getRelease e tool w0) = Inr release
   \<and> fst (getRelease e tool w1') = Inr release
   \<and> files w1' (manifestPath e) = files w1 (manifestPath e)
   \<and> files w1' p = Some f
   \<and> get_opt (get (tools (readManifest e w1)) (tool_name tool)) ''sha256''
       = Some (JStr (hash_hex e (bytes f)))
   \<longrightarrow> fst (ensureToolInstalled e tool w1') = Inr p
     \<and> downloads (snd (ensureToolInstalled e tool w1')) = downloads w1'
     \<and> (k \<noteq> ''lastVerifiedAt'' \<longrightarrow>
          get_opt (get (tools (readManifest e (snd (ensureToolInstalled e tool w1'))))
                     (tool_name tool)) k
            = get_opt (get (tools (readManifest e w1)) (tool_name tool)) k)
     \<and> get_opt (get (tools (readManifest e (snd (ensureToolInstalled e tool w1'))))
                  (tool_name tool)) ''lastVerifiedAt''
          = Some (JStr (toISOString e (now w1')))
     \<and> (tn \<noteq> tool_name tool \<longrightarrow>
          get (tools (readManifest e (snd (ensureToolInstalled e tool w1')))) tn
            = get (tools (readManifest e w1)) tn)
     \<and> map_option bytes (files (snd (ensureToolInstalled e tool w1')) p) = Some (bytes f)"
proof
  assume a: "ensureToolInstalled e tool w0 = (Inr p, w1)
   \<and> fst (getRelease e tool w0) = Inr release
   \<and> fst (getRelease e tool w1') = Inr release
   \<and> files w1' (manifestPath e) = files w1 (manifestPath e)
   \<and> files w1' p = Some f
   \<and> get_opt (get (tools (readManifest e w1)) (tool_name tool)) ''sha256''
       = Some (JStr (hash_hex e (bytes f)))"
  let ?bp = "path_join (binDir e) (r_binaryName release)"
  let ?wx = "snd (getRemoteManifest e w1')"
  have typed: "\<nexists>xs. tools (readManifest e w0) = JArr xs"
  proof
    assume "\<exists>xs. tools (readManifest e w0) = JArr xs"
    then obtain xs where "tools (readManifest e w0) = JArr xs" ..
    with a ensureToolInstalled_array [of e tool w0 p w1 release xs]
    have "tools (readManifest e w1) = JArr xs" by blast
    with a show False by simp
  qed
  from a typed ensureToolInstalled_post [of e tool w0 p w1 release]
  have p: "p = ?bp" and ok1: "installed_ok e tool release w1"
    by blast+
  from installed_ok_D [OF ok1] obtain tkvs kvs f1 where
    d1: "tools (readManifest e w1) = JObj tkvs"
      "get (JObj tkvs) (tool_name tool) = Some (JObj kvs)"
      "get (JObj kvs) ''binaryPath'' = Some (JStr ?bp)"
      "get (JObj kvs) ''version'' = Some (JStr (r_version release))"
      "get (JObj kvs) ''sha256'' = Some (JStr (r_sha256 release))"
    by blast
  have h: "hash_hex e (bytes f) = r_sha256 release"
    using a d1(1,2,5) by simp
  have fm: "files ?wx (manifestPath e) = files w1 (manifestPath e)"
    using a by (simp add: getRemoteManifest_frame manifest_path_distinct)
  have fb: "files ?wx ?bp = Some f"
    using a p by (simp add: getRemoteManifest_frame binary_path_distinct)
  have rm: "readManifest e ?wx = readManifest e w1"
    using fm by (rule readManifest_cong)
  have m1: "tools (readManifest e w1) = JObj tkvs"
    by (rule d1(1))
  have mx: "tools (readManifest e ?wx) = JObj tkvs"
    using d1(1) rm by simp
  let ?kvs' = "AList.update ''lastVerifiedAt'' (JStr (toISOString e (now ?wx))) kvs"
  let ?tkvs' = "AList.update (tool_name tool) (JObj ?kvs') tkvs"
  let ?wc = "?wx\<lparr>files := (files ?wx)(?bp \<mapsto> File (bytes f) 493)\<rparr>"
  let ?w2 = "snd (writeManifest e \<lparr>tools = JObj ?tkvs'\<rparr> ?wc)"
  have v: "verifyExistingInstall e tool release ?bp (readManifest e ?wx) ?wx
      = Some (Inr ?bp, ?w2)"
    by (rule verifyExistingInstall_ok [OF mx d1(2,3,4,5) fb h])
  have r: "getRelease e tool w1' = (Inr release, ?wx)"
    using a getRelease_Inr by blast
  have ens: "ensureToolInstalled e tool w1' = (Inr ?bp, ?w2)"
    unfolding ensureToolInstalled_def Let_def r prod.case sum.case v option.case
    by (rule refl)
  have m2: "readManifest e ?w2 = \<lparr>tools = JObj ?tkvs'\<rparr>"
    by (rule readManifest_written) (simp add: writeManifest_frame)
  have c1: "fst (ensureToolInstalled e tool w1') = Inr p"
    by (simp add: ens p)
  have c2: "downloads (snd (ensureToolInstalled e tool w1')) = downloads w1'"
    by (simp add: ens writeManifest_frame getRemoteManifest_frame)
  have c3: "k \<noteq> ''lastVerifiedAt'' \<longrightarrow>
          get_opt (get (tools (readManifest e (snd (ensureToolInstalled e tool w1'))))
                     (tool_name tool)) k
            = get_opt (get (tools (readManifest e w1)) (tool_name tool)) k"
    using d1(2) by (simp add: ens m2 m1 update_conv')
  have c4a: "get_opt (get (tools (readManifest e ?w2)) (tool_name tool)) ''lastVerifiedAt''
          = Some (JStr (toISOString e (now ?wx)))"
    by (simp add: m2 update_conv')
  have c4: "get_opt (get (tools (readManifest e (snd (ensureToolInstalled e tool w1'))))
                  (tool_name tool)) ''lastVerifiedAt''
          = Some (JStr (toISOString e (now w1')))"
    unfolding ens snd_conv c4a by (simp add: getRemoteManifest_frame)
  have c5: "tn \<noteq> tool_name tool \<longrightarrow>
          get (tools (readManifest e (snd (ensureToolInstalled e tool w1')))) tn
            = get (tools (readManifest e w1)) tn"
    by (simp add: ens m2 m1 update_conv')
  have "files ?w2 ?bp = Some (File (bytes f) 493)"
    by (simp add: writeManifest_frame binary_path_distinct)
  then have c6: "map_option bytes (files (snd (ensureToolInstalled e tool w1')) p)
          = Some (bytes f)"
    by (simp add: ens p)
  from c1 c2 c3 c4 c5 c6
  show "fst (ensureToolInstalled e tool w1') = Inr p
     \<and> downloads (snd (ensureToolInstalled e tool w1')) = downloads w1'
     \<and> (k \<noteq> ''lastVerifiedAt'' \<longrightarrow>
          get_opt (get (tools (readManifest e (snd (ensureToolInstalled e tool w1'))))
                     (tool_name tool)) k
            = get_opt (get (tools (readManifest e w1)) (tool_name tool)) k)
     \<and> get_opt (get (tools (readManifest e (snd (ensureToolInstalled e tool w1'))))
                  (tool_name tool)) ''lastVerifiedAt''
          = Some (JStr (toISOString e (now w1')))
     \<and> (tn \<noteq> tool_name tool \<longrightarrow>
          get (tools (readManifest e (snd (ensureToolInstalled e tool w1')))) tn
            = get (tools (readManifest e w1)) tn)
     \<and> map_option bytes (files (snd (ensureToolInstalled e tool w1')) p) = Some (bytes f)"
    by (intro conjI)
qed

lemma demo_paths:
  "path_join (binDir demo_env) (r_binaryName linux_release) = linux_binary"
  "manifestPath demo_env = ''/data/optional-tools/tools.json''"
  "remoteManifestCachePath demo_env = ''/data/optional-tools/tools-manifest-cache.json''"
  "getPlatformKey demo_env = ''linux-x64''"
  "getRemoteManifestURL demo_env
     = ''https://github.com/Soteyl/better-kenku-fm/releases/download/tool-manifest/tools-manifest.json''"
  by (simp_all add: path_defs demo_env_def linux_release_def builtin_release_def linux_binary_def
      getPlatformKey_def getRemoteManifestURL_def REMOTE_MANIFEST_OWNER_def
      REMOTE_MANIFEST_REPO_def REMOTE_MANIFEST_TAG_def REMOTE_MANIFEST_ASSET_def)

lemma install_getRemoteManifest:
  "getRemoteManifest demo_env (install_world b) = (None, install_world b)"
  by (simp add: getRemoteManifest_def is_fresh_def readRemoteManifestDiskCache_def
      exists_file_def fetchRemoteManifest_def demo_paths install_world_def demo_world_def
      httpGetBuffer.simps linux_url_def)

lemma install_getRelease:
  "getRelease demo_env YtDlp (install_world b) = (Inr linux_release, install_world b)"
  by (simp add: getRelease_eq install_getRemoteManifest remote_entry_def toValidToolRelease_def
      demo_paths linux_release_def linux_url_def linux_sha_def)

lemma install_readManifest:
  "readManifest demo_env (install_world b) = \<lparr>tools = JObj []\<rparr>"
  by (simp add: readManifest_def exists_file_def install_world_def demo_world_def)

lemma install_no_existing:
  "verifyExistingInstall demo_env YtDlp linux_release linux_binary \<lparr>tools = JObj []\<rparr>
     (install_world b) = None"
  by (simp add: verifyExistingInstall_def validExistingInstall_def)

lemma install_download:
  "httpGetBuffer (net (install_world b)) (r_url linux_release) 0 = Inr b"
  by (simp add: install_world_def httpGetBuffer.simps linux_release_def builtin_release_def)

lemma install_ensure:
  "ensureToolInstalled demo_env YtDlp (install_world b) =
     (case downloadAndInstall demo_env YtDlp linux_release linux_binary
             (tempPath_of demo_env linux_release (install_world b)) \<lparr>tools = JObj []\<rparr>
             (install_world b) of
        (Inl err, w2) \<Rightarrow>
          (Inl err, rm_force (tempPath_of demo_env linux_release (install_world b)) w2)
      | (Inr p, w2) \<Rightarrow> (Inr p, w2))"
  unfolding ensureToolInstalled_def Let_def install_getRelease prod.case sum.case demo_paths
    install_readManifest install_no_existing option.case
  by (rule refl)

lemma downloadAndInstall_ok:
  assumes body: "httpGetBuffer (net w) (r_url release) 0 = Inr body"
    and hash: "hash_hex e body = r_sha256 release"
    and unsigned: "\<not> (truthy (r_signature release) \<and> truthy (r_publicKeyPem release))"
    and tk: "tools m = JObj tkvs"
    and ne: "tp \<noteq> bp"
  shows "downloadAndInstall e tool release bp tp m w =
     (Inr bp,
      snd (writeManifest e
        \<lparr>tools = JObj (AList.update (tool_name tool) (installed_entry e release bp w) tkvs)\<rparr>
        (w\<lparr>downloads := (r_url release, tp) # downloads w,
           files := (files w)(tp := None, bp \<mapsto> File body 493)\<rparr>)))"
proof -
  let ?w0 = "w\<lparr>downloads := (r_url release, tp) # downloads w\<rparr>"
  let ?w2 = "writeFile tp body ?w0"
  have dl: "downloadToFile (r_url release) tp w = (Inr (), ?w2)"
    using body by (simp add: downloadToFile_def Let_def)
  have ver: "verifyReleaseIntegrity e tool tp release ?w2 = Inr ()"
    using hash unsigned by (auto simp: verifyReleaseIntegrity_def sha256_def)
  let ?w3 = "?w2\<lparr>files := (files ?w2)(tp \<mapsto> File body 493)\<rparr>"
  have ch: "chmod tp 493 ?w2 = Inr ?w3"
    by (simp add: chmod_eq)
  let ?w4 = "?w3\<lparr>files := (files ?w3)(tp := None, bp \<mapsto> File body 493)\<rparr>"
  have rn: "rename tp bp ?w3 = Inr ?w4"
    using ne by (simp add: rename_def)
  have w4: "?w4 = w\<lparr>downloads := (r_url release, tp) # downloads w,
           files := (files w)(tp := None, bp \<mapsto> File body 493)\<rparr>"
    using ne by (simp add: writeFile_def fun_upd_twist)
  show ?thesis
    unfolding downloadAndInstall_def dl prod.case sum.case ver ch rn w4 writeManifest_case
    by (simp add: tk installed_entry_def)
qed

lemma getRemoteManifest_offline:
  "remoteManifestMemoryCache w = None \<Longrightarrow> files w (remoteManifestCachePath e) = None
   \<Longrightarrow> httpGetBuffer (net w) (getRemoteManifestURL e) 0 = Inl err
   \<Longrightarrow> getRemoteManifest e w = (None, w)"
  by (simp add: getRemoteManifest_def is_fresh_def readRemoteManifestDiskCache_def
      exists_file_def fetchRemoteManifest_def)

lemma getRelease_builtin:
  "getRemoteManifest e w = (None, w) \<Longrightarrow> BUILTIN_TOOL_RELEASES tool (getPlatformKey e) = Some r
   \<Longrightarrow> getRelease e tool w = (Inr r, w)"
  by (simp add: getRelease_eq remote_entry_def toValidToolRelease_def)

lemma demo_builtin: "BUILTIN_TOOL_RELEASES YtDlp (getPlatformKey demo_env) = Some linux_release"
  by (simp add: demo_paths linux_release_def linux_url_def linux_sha_def)

lemma demo_offline:
  "httpGetBuffer (net (install_world b)) (getRemoteManifestURL demo_env) 0 = Inl TransportError"
  by (simp add: install_world_def httpGetBuffer.simps demo_paths linux_url_def)

lemma good_install:
  "ensureToolInstalled demo_env YtDlp (install_world (Bytes linux_sha))
     = (Inr linux_binary, installed_world (Bytes linux_sha))"
proof -
  have h: "hash_hex demo_env (Bytes linux_sha) = r_sha256 linux_release"
    by (simp add: demo_env_def demo_hash_def linux_release_def builtin_release_def)
  have u: "\<not> (truthy (r_signature linux_release) \<and> truthy (r_publicKeyPem linux_release))"
    by (simp add: linux_release_def builtin_release_def)
  have ne: "tempPath_of demo_env linux_release (install_world (Bytes linux_sha)) \<noteq> linux_binary"
    using temp_path_distinct(1) [of demo_env linux_release _ "r_binaryName linux_release"]
    by (simp add: demo_paths)
  have d: "downloads (install_world (Bytes linux_sha)) = []"
    "r_url linux_release = linux_url"
    by (simp_all add: install_world_def demo_world_def linux_release_def builtin_release_def)
  show ?thesis
    unfolding install_ensure
      downloadAndInstall_ok [OF install_download h u _ ne, of "\<lparr>tools = JObj []\<rparr>" "[]" YtDlp, simplified]
      prod.case sum.case installed_world_def d
    by simp
qed

lemma downloadAndInstall_downloads:
  "downloads (snd (downloadAndInstall e tool release bp tp m w)) = (r_url release, tp) # downloads w"
  by (simp add: downloadAndInstall_def downloadToFile_def Let_def chmod_eq rename_def
      writeManifest_eq split: sum.splits option.splits)

lemma install_ensure_downloads:
  "downloads (snd (ensureToolInstalled demo_env YtDlp (install_world b)))
     = [(linux_url, tempPath_of demo_env linux_release (install_world b))]"
proof -
  have d: "downloads (install_world b) = []" "r_url linux_release = linux_url"
    by (simp_all add: install_world_def demo_world_def linux_release_def builtin_release_def)
  show ?thesis
    using downloadAndInstall_downloads [of demo_env YtDlp linux_release linux_binary
        "tempPath_of demo_env linux_release (install_world b)" "\<lparr>tools = JObj []\<rparr>"
        "install_world b"]
    by (cases "downloadAndInstall demo_env YtDlp linux_release linux_binary
        (tempPath_of demo_env linux_release (install_world b)) \<lparr>tools = JObj []\<rparr>
        (install_world b)")
      (auto simp: install_ensure d split: sum.splits)
qed

theorem checksum_mismatch_never_commits_witness:
  "fst (getRelease demo_env YtDlp (install_world (Bytes ''corrupted''))) = Inr linux_release
   \<and> downloads (snd (ensureToolInstalled demo_env YtDlp (install_world (Bytes ''corrupted''))))
       \<noteq> downloads (install_world (Bytes ''corrupted''))
   \<and> httpGetBuffer (net (install_world (Bytes ''corrupted''))) (r_url linux_release) 0
       = Inr (Bytes ''corrupted'')
   \<and> hash_hex demo_env (Bytes ''corrupted'') \<noteq> r_sha256 linux_release
   \<and> fst (ensureToolInstalled demo_env YtDlp (install_world (Bytes ''corrupted'')))
       = Inl (ChecksumMismatch YtDlp)
   \<and> files (snd (ensureToolInstalled demo_env YtDlp (install_world (Bytes ''corrupted''))))
        (tempPath_of demo_env linux_release (install_world (Bytes ''corrupted''))) = None
   \<and> files (snd (ensureToolInstalled demo_env YtDlp (install_world (Bytes ''corrupted''))))
        linux_binary = None"
proof -
  let ?w = "install_world (Bytes ''corrupted'')"
  have r: "fst (getRelease demo_env YtDlp ?w) = Inr linux_release"
    by (simp add: install_getRelease)
  have d: "downloads (snd (ensureToolInstalled demo_env YtDlp ?w)) \<noteq> downloads ?w"
    by (simp add: install_ensure_downloads) (simp add: install_world_def demo_world_def)
  have h: "hash_hex demo_env (Bytes ''corrupted'') \<noteq> r_sha256 linux_release"
    by (simp add: demo_env_def demo_hash_def linux_release_def builtin_release_def linux_sha_def)
  have f: "files ?w linux_binary = None"
    by (simp add: install_world_def demo_world_def)
  show ?thesis
    using checksum_mismatch_never_commits
      [where e = demo_env and tool = YtDlp and w = ?w and release = linux_release
        and body = "Bytes ''corrupted''"]
      r d h install_download [of "Bytes ''corrupted''"] f
    by (simp add: demo_paths)
qed

lemma cache_path_distinct:
  "remoteManifestCachePath e \<noteq> tempPath_of e r w"
  "remoteManifestCachePath e \<noteq> manifestPath e"
  "remoteManifestCachePath e \<noteq> manifestPath e @ ''.tmp''"
  "remoteManifestCachePath e \<noteq> path_join (binDir e) n"
  by (simp_all add: path_defs)

lemma second_world_offline:
  "getRemoteManifest demo_env second_world = (None, second_world)"
proof (rule getRemoteManifest_offline)
  show "remoteManifestMemoryCache second_world = None"
    by (simp add: second_world_def installed_world_def writeManifest_frame install_world_def
        demo_world_def)
  have "files (installed_world (Bytes linux_sha)) (remoteManifestCachePath demo_env)
      = files (install_world (Bytes linux_sha)) (remoteManifestCachePath demo_env)"
    unfolding installed_world_def
    using cache_path_distinct(4) [of demo_env "r_binaryName linux_release"]
    by (simp add: writeManifest_frame cache_path_distinct demo_paths(1))
  then show "files second_world (remoteManifestCachePath demo_env) = None"
    by (simp add: second_world_def install_world_def demo_world_def)
  have "net second_world = net (install_world (Bytes linux_sha))"
    by (simp add: second_world_def installed_world_def writeManifest_frame)
  then show "httpGetBuffer (net second_world) (getRemoteManifestURL demo_env) 0 = Inl TransportError"
    by (simp add: demo_offline)
qed

lemma installed_world_binary:
  "files (installed_world b) linux_binary = Some (File b 493)"
  unfolding installed_world_def demo_paths(1) [symmetric]
  by (simp add: writeManifest_frame binary_path_distinct)

lemma installed_world_manifest:
  "readManifest demo_env (installed_world b) =
     \<lparr>tools = JObj [(''yt-dlp'',
        installed_entry demo_env linux_release linux_binary (install_world b))]\<rparr>"
  unfolding installed_world_def
  by (rule readManifest_written) (simp add: writeManifest_frame)

theorem second_call_only_verifies_witness:
  "ensureToolInstalled demo_env YtDlp (install_world (Bytes linux_sha))
     = (Inr linux_binary, installed_world (Bytes linux_sha))
   \<and> fst (getRelease demo_env YtDlp (install_world (Bytes linux_sha))) = Inr linux_release
   \<and> fst (getRelease demo_env YtDlp second_world) = Inr linux_release
   \<and> files second_world linux_binary = Some (File (Bytes linux_sha) 493)
   \<and> get_opt (get (tools (readManifest demo_env (installed_world (Bytes linux_sha)))) ''yt-dlp'')
         ''sha256'' = Some (JStr (hash_hex demo_env (Bytes linux_sha)))
   \<and> fst (ensureToolInstalled demo_env YtDlp second_world) = Inr linux_binary
   \<and> downloads (snd (ensureToolInstalled demo_env YtDlp second_world)) = downloads second_world
   \<and> get_opt (get (tools (readManifest demo_env (snd (ensureToolInstalled demo_env YtDlp second_world))))
                ''yt-dlp'') ''lastVerifiedAt'' = Some (JStr ''t1'')
   \<and> get_opt (get (tools (readManifest demo_env (snd (ensureToolInstalled demo_env YtDlp second_world))))
                ''yt-dlp'') ''installedAt''
       = get_opt (get (tools (readManifest demo_env (installed_world (Bytes linux_sha))))
                ''yt-dlp'') ''installedAt''"
proof -
  have r1: "fst (getRelease demo_env YtDlp (install_world (Bytes linux_sha))) = Inr linux_release"
    by (simp add: install_getRelease)
  have r2: "fst (getRelease demo_env YtDlp second_world) = Inr linux_release"
    using getRelease_builtin [OF second_world_offline demo_builtin] by simp
  have f: "files second_world (manifestPath demo_env)
      = files (installed_world (Bytes linux_sha)) (manifestPath demo_env)"
    "files second_world linux_binary = Some (File (Bytes linux_sha) 493)"
    by (simp_all add: second_world_def installed_world_binary)
  have s: "get_opt (get (tools (readManifest demo_env (installed_world (Bytes linux_sha)))) ''yt-dlp'')
         ''sha256'' = Some (JStr (hash_hex demo_env (Bytes linux_sha)))"
    unfolding installed_world_manifest
    by (simp add: installed_entry_def linux_release_def builtin_release_def demo_env_def
        demo_hash_def)
  have n: "toISOString demo_env (now second_world) = ''t1''"
    by (simp add: demo_env_def second_world_def)
  show ?thesis
    using second_call_only_verifies
      [where e = demo_env and tool = YtDlp and ?w0.0 = "install_world (Bytes linux_sha)"
        and p = linux_binary and ?w1.0 = "installed_world (Bytes linux_sha)"
        and release = linux_release and w1' = second_world and k = "''installedAt''"
        and tn = "''ffmpeg''" and f = "File (Bytes linux_sha) 493"]
      good_install r1 r2 f s n
    by simp
qed

end
